theory Spec2Isabelle
  imports Complex_Main "HOL-Library.Sublist" "HOL-Library.Word"
begin

unbundle bit_operations_syntax

section \<open>Python values as the converter sees them\<close>

text \<open>
  A Python \<open>str\<close> is modelled as a \<open>string\<close>: each \<open>char\<close> stands for one code point
  in the range U+0000..U+00FF, so \<open>length\<close> counts what Python's \<open>len\<close> counts on
  such texts.  Texts with code points beyond U+00FF are outside the model.

  The input document is a \<open>Dict[str, Any]\<close>: its values are whatever the JSON body held.
  \<open>json\<close> is that universe.  A float is a finite binary fraction, held by its exact
  value, with the negative zero apart (it prints differently); JSON has no infinities
  and no NaN.  A dict is an association list in insertion order with distinct keys, read
  with \<open>map_of\<close> (were a key repeated, its first binding would count).  The arguments
  \<open>version\<close> and \<open>una\<close> of the writers and the filename are of type \<open>str\<close>, as the
  signatures say.
\<close>

datatype pyfloat = Finite rat | NegZero

datatype json =
    JNull
  | JBool bool
  | JInt int
  | JFloat pyfloat
  | JStr string
  | JList "json list"
  | JObj "(string \<times> json) list"

text \<open>
  The exceptions the modules can end with.  \<open>ValueError\<close> is the only one they raise
  themselves (the spec's Invalid-Input); the other two are raised by the interpreter
  when a value has not the type an operation needs.
\<close>

datatype error = ValueError string | TypeError | AttributeError

text \<open>
  What the model takes from the interpreter without unfolding it: \<open>str()\<close> of a float,
  a list or a dict (their \<open>repr\<close>), and the current date as \<open>strftime('%Y%m%d')\<close>
  prints it.
\<close>

record pyenv =
  py_repr :: "json \<Rightarrow> string"
  today :: string

definition float_val :: "pyfloat \<Rightarrow> rat" where
  "float_val f = (case f of Finite r \<Rightarrow> r | NegZero \<Rightarrow> 0)"

text \<open>Truth value testing: \<open>if v\<close>, \<open>not v\<close>, \<open>a or b\<close>, \<open>any\<close>.\<close>

definition py_truthy :: "json \<Rightarrow> bool" where
  "py_truthy v =
     (case v of
        JNull \<Rightarrow> False
      | JBool b \<Rightarrow> b
      | JInt i \<Rightarrow> i \<noteq> 0
      | JFloat f \<Rightarrow> float_val f \<noteq> 0
      | JStr t \<Rightarrow> t \<noteq> []
      | JList xs \<Rightarrow> xs \<noteq> []
      | JObj kvs \<Rightarrow> kvs \<noteq> [])"

text \<open>Decimal digits of a natural number, and \<open>str\<close> of an \<open>int\<close>.\<close>

definition digit_char :: "nat \<Rightarrow> char" where
  "digit_char d = ''0123456789'' ! d"

function digits :: "nat \<Rightarrow> string" where
  "digits n = (if n < 10 then [digit_char n] else digits (n div 10) @ [digit_char (n mod 10)])"
  by pat_completeness auto
termination
  by (relation "measure id") auto

declare digits.simps [simp del]

definition str_int :: "int \<Rightarrow> string" where
  "str_int i = (if i < 0 then CHR ''-'' # digits (nat (- i)) else digits (nat i))"

text \<open>\<open>str(v)\<close>, which is also what an f-string and \<open>format\<close> with no format spec print.\<close>

definition py_str :: "pyenv \<Rightarrow> json \<Rightarrow> string" where
  "py_str env v =
     (case v of
        JNull \<Rightarrow> ''None''
      | JBool b \<Rightarrow> (if b then ''True'' else ''False'')
      | JInt i \<Rightarrow> str_int i
      | JStr t \<Rightarrow> t
      | _ \<Rightarrow> py_repr env v)"

text \<open>\<open>d.get(key, default)\<close> on a dict.\<close>

definition dict_get :: "(string \<times> json) list \<Rightarrow> string \<Rightarrow> json \<Rightarrow> json" where
  "dict_get kvs key dflt = (case map_of kvs key of Some v \<Rightarrow> v | None \<Rightarrow> dflt)"

text \<open>
  \<open>v.get(key, default)\<close> on any value: only a dict has the method.
\<close>

definition py_get :: "json \<Rightarrow> string \<Rightarrow> json \<Rightarrow> error + json" where
  "py_get v key dflt =
     (case v of JObj kvs \<Rightarrow> Inr (dict_get kvs key dflt) | _ \<Rightarrow> Inl AttributeError)"

text \<open>The keys of a dict, each once, in insertion order.\<close>

definition dict_keys :: "(string \<times> json) list \<Rightarrow> string list" where
  "dict_keys kvs = remdups (map fst kvs)"

text \<open>
  \<open>for x in v\<close>: the elements of a list, the keys of a dict, the characters of a str;
  nothing else is iterable.
\<close>

definition py_iter :: "json \<Rightarrow> error + json list" where
  "py_iter v =
     (case v of
        JList xs \<Rightarrow> Inr xs
      | JObj kvs \<Rightarrow> Inr (map JStr (dict_keys kvs))
      | JStr t \<Rightarrow> Inr (map (\<lambda>c. JStr [c]) t)
      | _ \<Rightarrow> Inl TypeError)"

text \<open>
  Hashing and equality of the hashable values: \<open>True == 1 == 1.0\<close>, so numbers are
  compared by value.  A list or a dict has no hash.
\<close>

datatype pykey = KNone | KNum rat | KStr string

definition py_key :: "json \<Rightarrow> pykey option" where
  "py_key v =
     (case v of
        JNull \<Rightarrow> Some KNone
      | JBool b \<Rightarrow> Some (KNum (if b then 1 else 0))
      | JInt i \<Rightarrow> Some (KNum (of_int i))
      | JFloat f \<Rightarrow> Some (KNum (float_val f))
      | JStr t \<Rightarrow> Some (KStr t)
      | _ \<Rightarrow> None)"

text \<open>Sequencing of computations that may raise: the first exception ends the run.\<close>

definition ebind :: "error + 'a \<Rightarrow> ('a \<Rightarrow> error + 'b) \<Rightarrow> error + 'b" where
  "ebind m f = (case m of Inl e \<Rightarrow> Inl e | Inr x \<Rightarrow> f x)"

text \<open>
  A \<open>for\<close> loop whose body appends to one output list: the outputs of the bodies in
  order, or the first exception.
\<close>

fun for_each :: "('a \<Rightarrow> error + 'b list) \<Rightarrow> 'a list \<Rightarrow> error + 'b list" where
  "for_each f [] = Inr []"
| "for_each f (x # xs) =
     (case f x of
        Inl e \<Rightarrow> Inl e
      | Inr ys \<Rightarrow> (case for_each f xs of Inl e \<Rightarrow> Inl e | Inr zs \<Rightarrow> Inr (ys @ zs)))"

text \<open>\<open>sep.join(parts)\<close>.\<close>

fun join :: "string \<Rightarrow> string list \<Rightarrow> string" where
  "join sep [] = []"
| "join sep [x] = x"
| "join sep (x # y # ys) = x @ sep @ join sep (y # ys)"

section \<open>SHA-1 (FIPS 180-4), as \<open>hashlib.sha1\<close> computes it\<close>

text \<open>UTF-8 of a text whose code points are below U+0100: one byte or two.\<close>

definition utf8_char :: "char \<Rightarrow> 8 word list" where
  "utf8_char c =
     (let n = (of_char c :: nat)
      in if n < 128 then [of_nat n]
         else [of_nat (192 + n div 64), of_nat (128 + n mod 64)])"

definition utf8_encode :: "string \<Rightarrow> 8 word list" where
  "utf8_encode t = concat (map utf8_char t)"

definition be32 :: "8 word list \<Rightarrow> 32 word" where
  "be32 bs = foldl (\<lambda>acc b. push_bit 8 acc OR ucast b) 0 bs"

definition bytes32 :: "32 word \<Rightarrow> 8 word list" where
  "bytes32 w = map (\<lambda>i. ucast (drop_bit (8 * i) w)) [3, 2, 1, 0]"

definition bytes64 :: "64 word \<Rightarrow> 8 word list" where
  "bytes64 w = map (\<lambda>i. ucast (drop_bit (8 * i) w)) [7, 6, 5, 4, 3, 2, 1, 0]"

definition sha1_pad :: "8 word list \<Rightarrow> 8 word list" where
  "sha1_pad m =
     m @ [0x80] @ replicate ((119 - length m mod 64) mod 64) 0 @ bytes64 (of_nat (8 * length m))"

function chunks :: "nat \<Rightarrow> 'a list \<Rightarrow> 'a list list" where
  "chunks n xs = (if n = 0 \<or> xs = [] then [] else take n xs # chunks n (drop n xs))"
  by pat_completeness auto
termination
  by (relation "measure (\<lambda>(n, xs). length xs)") auto

declare chunks.simps [simp del]

fun sha1_expand :: "nat \<Rightarrow> 32 word list \<Rightarrow> 32 word list" where
  "sha1_expand 0 w = w"
| "sha1_expand (Suc k) w =
     (let t = length w
      in sha1_expand k
           (w @ [word_rotl 1 (w ! (t - 3) XOR w ! (t - 8) XOR w ! (t - 14) XOR w ! (t - 16))]))"

type_synonym sha1_state = "32 word \<times> 32 word \<times> 32 word \<times> 32 word \<times> 32 word"

definition sha1_f :: "nat \<Rightarrow> 32 word \<Rightarrow> 32 word \<Rightarrow> 32 word \<Rightarrow> 32 word" where
  "sha1_f t b c d =
     (if t < 20 then (b AND c) OR (NOT b AND d)
      else if t < 40 then b XOR c XOR d
      else if t < 60 then (b AND c) OR (b AND d) OR (c AND d)
      else b XOR c XOR d)"

definition sha1_k :: "nat \<Rightarrow> 32 word" where
  "sha1_k t =
     (if t < 20 then 0x5A827999
      else if t < 40 then 0x6ED9EBA1
      else if t < 60 then 0x8F1BBCDC
      else 0xCA62C1D6)"

definition sha1_round :: "32 word list \<Rightarrow> nat \<Rightarrow> sha1_state \<Rightarrow> sha1_state" where
  "sha1_round w t st =
     (case st of (a, b, c, d, e) \<Rightarrow>
        (word_rotl 5 a + sha1_f t b c d + e + sha1_k t + w ! t, a, word_rotl 30 b, c, d))"

definition sha1_block :: "sha1_state \<Rightarrow> 8 word list \<Rightarrow> sha1_state" where
  "sha1_block h blk =
     (let w = sha1_expand 64 (map be32 (chunks 4 blk))
      in case (h, fold (sha1_round w) [0..<80] h) of
           ((h0, h1, h2, h3, h4), (a, b, c, d, e)) \<Rightarrow> (h0 + a, h1 + b, h2 + c, h3 + d, h4 + e))"

definition sha1_init :: sha1_state where
  "sha1_init = (0x67452301, 0xEFCDAB89, 0x98BADCFE, 0x10325476, 0xC3D2E1F0)"

text \<open>The digest: twenty bytes, 160 bits.\<close>

definition sha1 :: "8 word list \<Rightarrow> 8 word list" where
  "sha1 m =
     (case foldl sha1_block sha1_init (chunks 64 (sha1_pad m)) of
        (h0, h1, h2, h3, h4) \<Rightarrow> concat (map bytes32 [h0, h1, h2, h3, h4]))"

definition hex_char :: "nat \<Rightarrow> char" where
  "hex_char d = ''0123456789abcdef'' ! d"

definition hex_byte :: "8 word \<Rightarrow> string" where
  "hex_byte b = [hex_char (unat b div 16), hex_char (unat b mod 16)]"

text \<open>\<open>.hexdigest()\<close>: two lower-case hexadecimal digits for each byte.\<close>

definition hexdigest :: "8 word list \<Rightarrow> string" where
  "hexdigest bs = concat (map hex_byte bs)"

text \<open>
  \<open>str.upper()\<close> on ASCII text, which is all it is applied to here (hexadecimal digits).
\<close>

definition upper_char :: "char \<Rightarrow> char" where
  "upper_char c =
     (case map_of (zip ''abcdefghijklmnopqrstuvwxyz'' ''ABCDEFGHIJKLMNOPQRSTUVWXYZ'') c of
        Some u \<Rightarrow> u
      | None \<Rightarrow> c)"

definition upper :: "string \<Rightarrow> string" where
  "upper t = map upper_char t"

section \<open>EDIFACT writer: separators and escaping\<close>

text \<open>
  The dataclass \<open>Sep\<close> of \<open>edifact_writer.py\<close>.  Every separator set the module builds
  (the defaults, and the one read from a UNA string) holds single characters.
\<close>

record Sep =
  s_comp :: char
  s_elem :: char
  s_dec :: char
  s_rel :: char
  s_seg :: char

definition default_Sep :: Sep where
  "default_Sep = \<lparr>s_comp = CHR '':'', s_elem = CHR ''+'', s_dec = CHR ''.'',
                  s_rel = CHR ''?'', s_seg = CHR 0x27\<rparr>"

text \<open>Python's \<open>value.replace(old, new)\<close> for a one-character \<open>old\<close>.\<close>

primrec replace :: "string \<Rightarrow> char \<Rightarrow> string \<Rightarrow> string" where
  "replace [] old new = []"
| "replace (c # cs) old new = (if c = old then new else [c]) @ replace cs old new"

text \<open>
  \<open>escape(value, s)\<close>: four successive replacements, the release character first.  The
  \<open>isinstance\<close> guard of the source is the identity on the \<open>str\<close> arguments this
  function takes; \<open>seg\<close> stringifies before it calls.
\<close>

definition escape :: "string \<Rightarrow> Sep \<Rightarrow> string" where
  "escape value s =
     (let result = replace value (s_rel s) [s_rel s, s_rel s];
          result = replace result (s_seg s) [s_rel s, s_seg s];
          result = replace result (s_elem s) [s_rel s, s_elem s];
          result = replace result (s_comp s) [s_rel s, s_comp s]
      in result)"

text \<open>
  Modelled from the spec: the reader of escaped text, which the repository does not
  contain.  \<open>parse_element\<close> cuts an escaped element off the front of a segment body: it
  runs up to the first segment terminator, element separator or component separator
  that no release character protects, and returns the raw element with the remaining
  input.  \<open>unescape\<close> removes each release-character prefix, which also collapses a
  doubled release character into one.
\<close>

fun parse_element :: "Sep \<Rightarrow> string \<Rightarrow> string \<times> string" where
  "parse_element s [] = ([], [])"
| "parse_element s [c] =
     (if c = s_rel s then ([c], [])
      else if c = s_seg s \<or> c = s_elem s \<or> c = s_comp s then ([], [c])
      else ([c], []))"
| "parse_element s (c # d # cs) =
     (if c = s_rel s then (let (tok, rest) = parse_element s cs in (c # d # tok, rest))
      else if c = s_seg s \<or> c = s_elem s \<or> c = s_comp s then ([], c # d # cs)
      else (let (tok, rest) = parse_element s (d # cs) in (c # tok, rest)))"

fun unescape :: "Sep \<Rightarrow> string \<Rightarrow> string" where
  "unescape s [] = []"
| "unescape s [c] = [c]"
| "unescape s (c # d # cs) =
     (if c = s_rel s then d # unescape s cs else c # unescape s (d # cs))"

section \<open>EDIFACT writer: segments and references\<close>

text \<open>
  \<open>seg(tag, elements, s)\<close>.  An element that is a list is a composite: its parts are
  stringified and joined by the component separator, unescaped.  Any other element is
  stringified and escaped.
\<close>

definition seg :: "pyenv \<Rightarrow> string \<Rightarrow> json list \<Rightarrow> Sep \<Rightarrow> string" where
  "seg env tag elements s =
     (let processed_elements =
            map (\<lambda>element.
                   case element of
                     JList comps \<Rightarrow> join [s_comp s] (map (py_str env) comps)
                   | _ \<Rightarrow> escape (py_str env element) s)
                elements
      in tag @ [s_elem s] @ join [s_elem s] processed_elements @ [s_seg s])"

text \<open>\<open>generate_deterministic_ref(publisher, version)\<close>.\<close>

definition generate_deterministic_ref :: "pyenv \<Rightarrow> json \<Rightarrow> string \<Rightarrow> error + string" where
  "generate_deterministic_ref env publisher version =
     ebind (py_get publisher ''name'' (JStr [])) (\<lambda>name.
     ebind (py_get publisher ''url'' (JStr [])) (\<lambda>url.
       let hash_input = py_str env name @ ''-'' @ py_str env url @ ''-'' @ version;
           hash_hex = hexdigest (sha1 (utf8_encode hash_input))
       in Inr (upper (take 12 hash_hex))))"

text \<open>
  The four service segments.  Every caller passes the separator set, so the \<open>s is None\<close>
  default of the source is not a case of the model.  \<open>sender_id\<close> and \<open>timestamp\<close> come
  from the publisher dict and can be any value.
\<close>

definition make_unb :: "pyenv \<Rightarrow> json \<Rightarrow> string \<Rightarrow> string \<Rightarrow> json \<Rightarrow> Sep \<Rightarrow> string" where
  "make_unb env sender_id receiver_id interchange_ref timestamp s =
     (let timestamp = (if timestamp = JNull then JStr ''240101:0000'' else timestamp);
          elements = [JList [JStr ''UNOC'', JStr ''3''], sender_id, JStr receiver_id, timestamp,
                      JStr interchange_ref]
      in seg env ''UNB'' elements s)"

definition make_unh :: "pyenv \<Rightarrow> string \<Rightarrow> string \<Rightarrow> string \<Rightarrow> Sep \<Rightarrow> string" where
  "make_unh env message_ref message_type version s =
     (let elements = [JStr message_ref,
                      JList [JStr message_type, JStr ''D'', JStr ''03B'', JStr ''UN'', JStr ''IATA'',
                             JStr version]]
      in seg env ''UNH'' elements s)"

definition make_unt :: "pyenv \<Rightarrow> int \<Rightarrow> string \<Rightarrow> Sep \<Rightarrow> string" where
  "make_unt env segment_count message_ref s =
     (let elements = [JStr (str_int segment_count), JStr message_ref]
      in seg env ''UNT'' elements s)"

definition make_unz :: "pyenv \<Rightarrow> int \<Rightarrow> string \<Rightarrow> Sep \<Rightarrow> string" where
  "make_unz env message_count interchange_ref s =
     (let elements = [JStr (str_int message_count), JStr interchange_ref]
      in seg env ''UNZ'' elements s)"

section \<open>EDIFACT writer: TSDUPD body\<close>

text \<open>
  The body of the loop over the stations: one \<open>LOC\<close>, and a \<open>GIS\<close> under the guard
  \<open>if lat and lon\<close>.
\<close>

definition tsdupd_station :: "pyenv \<Rightarrow> Sep \<Rightarrow> json \<Rightarrow> error + string list" where
  "tsdupd_station env s station =
     (case station of
        JObj st \<Rightarrow>
          (let station_id = dict_get st ''id'' (JStr []);
               station_name = dict_get st ''name'' (JStr []);
               lat = dict_get st ''lat'' (JStr []);
               lon = dict_get st ''lon'' (JStr []);
               loc_elements = [JStr ''88'', station_id, JStr [], JStr [], station_name];
               gis_elements = [JStr ''1'', JStr (py_str env lat), JStr (py_str env lon)]
           in Inr (seg env ''LOC'' loc_elements s #
                   (if py_truthy lat \<and> py_truthy lon then [seg env ''GIS'' gis_elements s] else [])))
      | _ \<Rightarrow> Inl AttributeError)"

definition map_tsdupd_segments :: "pyenv \<Rightarrow> json \<Rightarrow> Sep \<Rightarrow> error + string list" where
  "map_tsdupd_segments env stations s =
     ebind (py_iter stations) (for_each (tsdupd_station env s))"

section \<open>EDIFACT writer: SKDUPD body\<close>

text \<open>
  \<open>str.isdigit()\<close> of one character below U+0100: the ASCII digits and the superscripts
  two, three and one.
\<close>

definition isdigit_char :: "char \<Rightarrow> bool" where
  "isdigit_char c =
     (let n = (of_char c :: nat) in (48 \<le> n \<and> n \<le> 57) \<or> n = 178 \<or> n = 179 \<or> n = 185)"

definition isdigit :: "string \<Rightarrow> bool" where
  "isdigit t = (t \<noteq> [] \<and> list_all isdigit_char t)"

text \<open>
  The lookup of the carrier's name: the first agency whose \<open>id\<close> equals the carrier
  ends the loop; no match leaves the empty name.
\<close>

fun find_carrier_name :: "json list \<Rightarrow> pykey \<Rightarrow> error + json" where
  "find_carrier_name [] k = Inr (JStr [])"
| "find_carrier_name (agency # rest) k =
     (case agency of
        JObj ag \<Rightarrow>
          if py_key (dict_get ag ''id'' JNull) = Some k then Inr (dict_get ag ''name'' (JStr []))
          else find_carrier_name rest k
      | _ \<Rightarrow> Inl AttributeError)"

text \<open>
  The \<open>NAD\<close> part of the loop body: under \<open>carrier_uic and carrier_uic not in
  carriers_used\<close> the carrier is recorded and its segment built.  Returns the segments
  and the new \<open>carriers_used\<close>.
\<close>

definition skdupd_carrier ::
  "pyenv \<Rightarrow> json \<Rightarrow> Sep \<Rightarrow> pykey list \<Rightarrow> json \<Rightarrow> error + (string list \<times> pykey list)" where
  "skdupd_carrier env agencies s carriers_used carrier_uic =
     (if \<not> py_truthy carrier_uic then Inr ([], carriers_used)
      else case py_key carrier_uic of
        None \<Rightarrow> Inl TypeError
      | Some k \<Rightarrow>
          if k \<in> set carriers_used then Inr ([], carriers_used)
          else
            ebind (py_iter agencies) (\<lambda>agency_list.
            ebind (find_carrier_name agency_list k) (\<lambda>carrier_name.
              let nad_elements = [JStr ''CA'', carrier_uic, JStr [], carrier_name]
              in Inr ([seg env ''NAD'' nad_elements s], k # carriers_used))))"

text \<open>A calendar bound: \<open>DTM\<close> with the given qualifier when it is eight digits.\<close>

definition skdupd_date :: "pyenv \<Rightarrow> Sep \<Rightarrow> string \<Rightarrow> json \<Rightarrow> error + string list" where
  "skdupd_date env s qual date =
     (if \<not> py_truthy date then Inr []
      else case date of
        JStr t \<Rightarrow>
          Inr (if length t = 8 \<and> isdigit t
               then [seg env ''DTM'' [JList [JStr qual, date, JStr ''102'']] s] else [])
      | JList xs \<Rightarrow> (if length xs = 8 then Inl AttributeError else Inr [])
      | JObj kvs \<Rightarrow> (if length (dict_keys kvs) = 8 then Inl AttributeError else Inr [])
      | _ \<Rightarrow> Inl TypeError)"

definition weekdays :: "string list" where
  "weekdays = [''monday'', ''tuesday'', ''wednesday'', ''thursday'', ''friday'', ''saturday'',
               ''sunday'']"

text \<open>The body of the loop over a service's variants.\<close>

definition skdupd_variant :: "pyenv \<Rightarrow> Sep \<Rightarrow> json \<Rightarrow> error + string list" where
  "skdupd_variant env s variant =
     (case variant of
        JObj vr \<Rightarrow>
          (let service_id = dict_get vr ''service_id'' (dict_get vr ''id'' (JStr []));
               calendar = dict_get vr ''calendar'' (JObj []);
               rff = (if py_truthy service_id
                      then [seg env ''RFF'' [JList [JStr ''SRV'', service_id]] s] else [])
           in case calendar of
                JObj cal \<Rightarrow>
                  ebind (skdupd_date env s ''324'' (dict_get cal ''start_date'' (JStr []))) (\<lambda>dtm_start.
                  ebind (skdupd_date env s ''325'' (dict_get cal ''end_date'' (JStr []))) (\<lambda>dtm_end.
                    let dow_pattern = map (\<lambda>day. dict_get cal day (JBool False)) weekdays;
                        dow_bits = map (\<lambda>day. if py_truthy day then CHR ''1'' else CHR ''0'') dow_pattern;
                        ftx_dow_elements = [JStr ''CDV'', JStr [], JStr [], JStr dow_bits]
                    in Inr (rff @ dtm_start @ dtm_end @
                            (if list_ex py_truthy dow_pattern
                             then [seg env ''FTX'' ftx_dow_elements s] else []))))
              | _ \<Rightarrow> Inl AttributeError)
      | _ \<Rightarrow> Inl AttributeError)"

text \<open>\<open>_format_time_for_dtm(time_str)\<close>: only a str has \<open>replace\<close>.\<close>

definition format_time_for_dtm :: "json \<Rightarrow> error + string" where
  "format_time_for_dtm time_str =
     (if \<not> py_truthy time_str then Inr []
      else case time_str of
        JStr t \<Rightarrow>
          (let formatted = replace t (CHR '':'') []
           in Inr (if length formatted < 4
                   then formatted @ replicate (4 - length formatted) (CHR ''0'')
                   else formatted))
      | _ \<Rightarrow> Inl AttributeError)"

definition skdupd_time :: "pyenv \<Rightarrow> Sep \<Rightarrow> string \<Rightarrow> json \<Rightarrow> error + string list" where
  "skdupd_time env s qual time =
     (if \<not> py_truthy time then Inr []
      else ebind (format_time_for_dtm time) (\<lambda>formatted.
             Inr [seg env ''DTM'' [JList [JStr qual, JStr formatted, JStr ''105'']] s]))"

text \<open>
  \<open>day_offset and day_offset > 0\<close>: a str, a list or a dict is not ordered against an
  int.
\<close>

definition positive_offset :: "json \<Rightarrow> error + bool" where
  "positive_offset day_offset =
     (if \<not> py_truthy day_offset then Inr False
      else case day_offset of
        JBool b \<Rightarrow> Inr b
      | JInt i \<Rightarrow> Inr (0 < i)
      | JFloat f \<Rightarrow> Inr (0 < float_val f)
      | _ \<Rightarrow> Inl TypeError)"

text \<open>The body of the loop over a service's calls.\<close>

definition skdupd_call :: "pyenv \<Rightarrow> Sep \<Rightarrow> json \<Rightarrow> error + string list" where
  "skdupd_call env s call =
     (case call of
        JObj cl \<Rightarrow>
          (let station_uic = dict_get cl ''station_id'' (JStr []);
               arr_time = dict_get cl ''arrival_time'' (JStr []);
               dep_time = dict_get cl ''departure_time'' (JStr []);
               day_offset = dict_get cl ''day_offset'' (JInt 0);
               loc = (if py_truthy station_uic
                      then [seg env ''LOC'' [JStr ''92'', station_uic] s] else [])
           in ebind (skdupd_time env s ''132'' arr_time) (\<lambda>dtm_arr.
              ebind (skdupd_time env s ''133'' dep_time) (\<lambda>dtm_dep.
              ebind (positive_offset day_offset) (\<lambda>pos.
                Inr (loc @ dtm_arr @ dtm_dep @
                     (if pos
                      then [seg env ''DTM''
                              [JList [JStr ''997'', JStr (py_str env day_offset), JStr ''900'']] s]
                      else []))))))
      | _ \<Rightarrow> Inl AttributeError)"

text \<open>
  The \<open>TDT\<close> segment of a service: qualifier \<open>20\<close> and the value of the nested
  \<open>get\<close> defaults \<open>train_number\<close>, \<open>route_short_name\<close>, \<open>id\<close>.
\<close>

definition train_number_of :: "(string \<times> json) list \<Rightarrow> json" where
  "train_number_of sv =
     dict_get sv ''train_number'' (dict_get sv ''route_short_name'' (dict_get sv ''id'' (JStr [])))"

definition skdupd_tdt :: "pyenv \<Rightarrow> Sep \<Rightarrow> (string \<times> json) list \<Rightarrow> string" where
  "skdupd_tdt env s sv = seg env ''TDT'' [JStr ''20'', train_number_of sv] s"

text \<open>
  One pass of the loop over the services, from the \<open>TDT\<close> on: the segments the service
  adds after its optional \<open>NAD\<close>.
\<close>

definition skdupd_service :: "pyenv \<Rightarrow> Sep \<Rightarrow> (string \<times> json) list \<Rightarrow> error + string list" where
  "skdupd_service env s sv =
     (let headsign = (if py_truthy (dict_get sv ''headsign'' JNull)
                      then dict_get sv ''headsign'' JNull
                      else dict_get sv ''route_long_name'' JNull);
          ftx = (if py_truthy headsign
                 then [seg env ''FTX'' [JStr ''AAI'', JStr [], JStr [], headsign] s] else [])
      in ebind (py_iter (dict_get sv ''variants'' (JList []))) (\<lambda>variants.
         ebind (for_each (skdupd_variant env s) variants) (\<lambda>variant_segments.
         ebind (py_iter (dict_get sv ''calls'' (JList []))) (\<lambda>calls.
         ebind (for_each (skdupd_call env s) calls) (\<lambda>call_segments.
           Inr (skdupd_tdt env s sv # ftx @ variant_segments @ call_segments))))))"

text \<open>The loop over the services, with the set \<open>carriers_used\<close> as its state.\<close>

fun skdupd_services ::
  "pyenv \<Rightarrow> json \<Rightarrow> Sep \<Rightarrow> pykey list \<Rightarrow> json list \<Rightarrow> error + string list" where
  "skdupd_services env agencies s carriers_used [] = Inr []"
| "skdupd_services env agencies s carriers_used (service # rest) =
     (case service of
        JObj sv \<Rightarrow>
          (case skdupd_carrier env agencies s carriers_used (dict_get sv ''agency_id'' (JStr [])) of
             Inl e \<Rightarrow> Inl e
           | Inr (nad, carriers_used') \<Rightarrow>
               (case skdupd_service env s sv of
                  Inl e \<Rightarrow> Inl e
                | Inr segments \<Rightarrow>
                    (case skdupd_services env agencies s carriers_used' rest of
                       Inl e \<Rightarrow> Inl e
                     | Inr others \<Rightarrow> Inr (nad @ segments @ others))))
      | _ \<Rightarrow> Inl AttributeError)"

definition map_skdupd_segments :: "pyenv \<Rightarrow> json \<Rightarrow> json \<Rightarrow> Sep \<Rightarrow> error + string list" where
  "map_skdupd_segments env agencies services s =
     ebind (py_iter services) (skdupd_services env agencies s [])"

section \<open>EDIFACT writer: entry points\<close>

text \<open>
  The separator set read from an accepted UNA string (the \<open>Sep(...)\<close> call of both entry
  points).  It is only evaluated after the length check, so every index is in range.
\<close>

definition sep_of_una :: "string \<Rightarrow> Sep" where
  "sep_of_una una = \<lparr>s_comp = una ! 3, s_elem = una ! 4, s_dec = una ! 5, s_rel = una ! 6,
                     s_seg = una ! 8\<rparr>"

definition invalid_una :: "string \<Rightarrow> bool" where
  "invalid_una una = (length una \<noteq> 9 \<or> \<not> prefix ''UNA'' una)"

text \<open>
  \<open>value[:35]\<close>: a str and a list can be sliced.  Everything else raises; for a dict
  the exception is a \<open>TypeError\<close> up to Python 3.11 and a \<open>KeyError\<close> from 3.12 on, and
  the model records \<open>TypeError\<close>.
\<close>

definition py_slice_to :: "nat \<Rightarrow> json \<Rightarrow> error + json" where
  "py_slice_to n v =
     (case v of
        JStr t \<Rightarrow> Inr (JStr (take n t))
      | JList xs \<Rightarrow> Inr (JList (take n xs))
      | _ \<Rightarrow> Inl TypeError)"

text \<open>
  What both entry points do once the document is validated, in the order of the source:
  references, timestamp, sender, body, count.  \<open>body\<close> is the call of the body mapping.
  The result is the list \<open>segments\<close> that the entry point joins.
\<close>

definition assemble ::
  "pyenv \<Rightarrow> (string \<times> json) list \<Rightarrow> string \<Rightarrow> string \<Rightarrow> Sep \<Rightarrow> string \<Rightarrow> (Sep \<Rightarrow> error + string list)
     \<Rightarrow> error + string list" where
  "assemble env json_data version una s message_type body =
     (let publisher = dict_get json_data ''publisher'' (JObj [])
      in ebind (generate_deterministic_ref env publisher version) (\<lambda>interchange_ref.
         let message_ref = interchange_ref @ ''01''
         in ebind (py_get publisher ''fixed_timestamp'' JNull) (\<lambda>fixed_timestamp.
            let timestamp = (if py_truthy fixed_timestamp then fixed_timestamp
                             else JStr ''240101:0000'')
            in ebind (py_get publisher ''name'' (JStr ''SENDER'')) (\<lambda>name.
               ebind (py_slice_to 35 name) (\<lambda>sender_id.
               ebind (body s) (\<lambda>body_segments.
                 let segment_count = int (length body_segments) + 2
                 in Inr ([una,
                          make_unb env sender_id ''RECEIVER'' interchange_ref timestamp s,
                          make_unh env message_ref message_type version s]
                         @ body_segments
                         @ [make_unt env segment_count message_ref s,
                            make_unz env 1 interchange_ref s])))))))"

text \<open>\<open>write_tsdupd\<close>, up to the final join: the list \<open>segments\<close>.\<close>

definition tsdupd_segments ::
  "pyenv \<Rightarrow> (string \<times> json) list \<Rightarrow> string \<Rightarrow> string \<Rightarrow> error + string list" where
  "tsdupd_segments env json_data version una =
     (if invalid_una una then Inl (ValueError (''Invalid UNA string: '' @ una))
      else
        let s = sep_of_una una
        in case map_of json_data ''stations'' of
             None \<Rightarrow> Inl (ValueError ''Missing required 'stations' data'')
           | Some stations \<Rightarrow>
               if \<not> py_truthy stations then Inl (ValueError ''Stations list cannot be empty'')
               else assemble env json_data version una s ''TSDUPD''
                      (map_tsdupd_segments env stations))"

definition write_tsdupd ::
  "pyenv \<Rightarrow> (string \<times> json) list \<Rightarrow> string \<Rightarrow> string \<Rightarrow> error + string" where
  "write_tsdupd env json_data version una =
     ebind (tsdupd_segments env json_data version una) (\<lambda>segments. Inr (concat segments))"

text \<open>\<open>write_skdupd\<close>, up to the final join.\<close>

definition skdupd_segments ::
  "pyenv \<Rightarrow> (string \<times> json) list \<Rightarrow> string \<Rightarrow> string \<Rightarrow> error + string list" where
  "skdupd_segments env json_data version una =
     (if invalid_una una then Inl (ValueError (''Invalid UNA string: '' @ una))
      else
        let s = sep_of_una una
        in case map_of json_data ''agencies'' of
             None \<Rightarrow> Inl (ValueError ''Missing required 'agencies' data'')
           | Some agencies \<Rightarrow>
               (case map_of json_data ''services'' of
                  None \<Rightarrow> Inl (ValueError ''Missing required 'services' data'')
                | Some services \<Rightarrow>
                    if \<not> py_truthy agencies then Inl (ValueError ''Agencies list cannot be empty'')
                    else if \<not> py_truthy services
                    then Inl (ValueError ''Services list cannot be empty'')
                    else assemble env json_data version una s ''SKDUPD''
                           (map_skdupd_segments env agencies services)))"

definition write_skdupd ::
  "pyenv \<Rightarrow> (string \<times> json) list \<Rightarrow> string \<Rightarrow> string \<Rightarrow> error + string" where
  "write_skdupd env json_data version una =
     ebind (skdupd_segments env json_data version una) (\<lambda>segments. Inr (concat segments))"

section \<open>GTFS writer: CSV output\<close>

text \<open>
  \<open>csv.writer(output).writerow(row)\<close> in the default dialect: \<open>None\<close> is written as the
  empty field, a str as it is, anything else through \<open>str\<close>; a field is quoted when it
  holds a comma, a double quote, a carriage return or a line feed, with every double
  quote doubled; fields are joined by commas and the row ends with CR LF.  (A row that
  is one empty field would be written quoted; every row of this module has at least
  seven fields.)
\<close>

definition csv_field :: "pyenv \<Rightarrow> json \<Rightarrow> string" where
  "csv_field env v =
     (let field = (case v of JNull \<Rightarrow> [] | _ \<Rightarrow> py_str env v)
      in if list_ex (\<lambda>c. c = CHR '','' \<or> c = CHR 0x22 \<or> c = CHR 0x0D \<or> c = CHR 0x0A) field
         then [CHR 0x22] @ replace field (CHR 0x22) [CHR 0x22, CHR 0x22] @ [CHR 0x22]
         else field)"

definition csv_row :: "pyenv \<Rightarrow> json list \<Rightarrow> string" where
  "csv_row env row = join '','' (map (csv_field env) row) @ [CHR 0x0D, CHR 0x0A]"

text \<open>The text in the \<open>StringIO\<close> after a header row and the data rows.\<close>

definition csv_text :: "pyenv \<Rightarrow> string list \<Rightarrow> json list list \<Rightarrow> string" where
  "csv_text env header rows = concat (map (csv_row env) (map JStr header # rows))"

section \<open>GTFS writer: the files\<close>

text \<open>
  For each file the model keeps the data rows the writer is given (one list of cell
  values for each \<open>writerow\<close> call after the header) apart from their rendering as text.
\<close>

definition agency_header :: "string list" where
  "agency_header = [''agency_id'', ''agency_name'', ''agency_url'', ''agency_timezone'',
                    ''agency_lang'', ''agency_phone'', ''agency_email'']"

definition agency_row :: "json \<Rightarrow> error + json list list" where
  "agency_row agency =
     (case agency of
        JObj ag \<Rightarrow>
          Inr [[dict_get ag ''id'' (JStr []),
                dict_get ag ''name'' (JStr []),
                dict_get ag ''url'' (JStr []),
                dict_get ag ''timezone'' (JStr ''Europe/Bratislava''),
                dict_get ag ''lang'' (JStr []),
                dict_get ag ''phone'' (JStr []),
                dict_get ag ''email'' (JStr [])]]
      | _ \<Rightarrow> Inl AttributeError)"

definition generate_agency_file :: "pyenv \<Rightarrow> json \<Rightarrow> error + string" where
  "generate_agency_file env agencies =
     ebind (py_iter agencies) (\<lambda>agency_list.
     ebind (for_each agency_row agency_list) (\<lambda>rows.
       Inr (csv_text env agency_header rows)))"

definition stops_header :: "string list" where
  "stops_header = [''stop_id'', ''stop_code'', ''stop_name'', ''stop_desc'', ''stop_lat'',
                   ''stop_lon'', ''zone_id'', ''stop_url'', ''location_type'', ''parent_station'',
                   ''wheelchair_boarding'']"

definition stops_row :: "json \<Rightarrow> error + json list list" where
  "stops_row station =
     (case station of
        JObj st \<Rightarrow>
          Inr [[dict_get st ''id'' (JStr []),
                dict_get st ''code'' (JStr []),
                dict_get st ''name'' (JStr []),
                dict_get st ''desc'' (JStr []),
                dict_get st ''lat'' (JStr []),
                dict_get st ''lon'' (JStr []),
                dict_get st ''zone_id'' (JStr []),
                dict_get st ''url'' (JStr []),
                dict_get st ''location_type'' (JInt 0),
                dict_get st ''parent_station'' (JStr []),
                dict_get st ''wheelchair_boarding'' (JInt 0)]]
      | _ \<Rightarrow> Inl AttributeError)"

definition generate_stops_file :: "pyenv \<Rightarrow> json \<Rightarrow> error + string" where
  "generate_stops_file env stations =
     ebind (py_iter stations) (\<lambda>station_list.
     ebind (for_each stops_row station_list) (\<lambda>rows.
       Inr (csv_text env stops_header rows)))"

definition routes_header :: "string list" where
  "routes_header = [''route_id'', ''agency_id'', ''route_short_name'', ''route_long_name'',
                    ''route_desc'', ''route_type'', ''route_url'', ''route_color'',
                    ''route_text_color'']"

definition routes_row :: "json \<Rightarrow> error + json list list" where
  "routes_row service =
     (case service of
        JObj sv \<Rightarrow>
          Inr [[dict_get sv ''id'' (JStr []),
                dict_get sv ''agency_id'' (JStr []),
                dict_get sv ''route_short_name'' (JStr []),
                dict_get sv ''route_long_name'' (JStr []),
                dict_get sv ''route_desc'' (JStr []),
                dict_get sv ''route_type'' (JInt 3),
                dict_get sv ''route_url'' (JStr []),
                dict_get sv ''route_color'' (JStr []),
                dict_get sv ''route_text_color'' (JStr [])]]
      | _ \<Rightarrow> Inl AttributeError)"

text \<open>The \<open>agencies\<close> argument of \<open>_generate_routes_file\<close> is not used by its body.\<close>

definition generate_routes_file :: "pyenv \<Rightarrow> json \<Rightarrow> json \<Rightarrow> error + string" where
  "generate_routes_file env services agencies =
     ebind (py_iter services) (\<lambda>service_list.
     ebind (for_each routes_row service_list) (\<lambda>rows.
       Inr (csv_text env routes_header rows)))"

definition calendar_header :: "string list" where
  "calendar_header = [''service_id'', ''monday'', ''tuesday'', ''wednesday'', ''thursday'',
                      ''friday'', ''saturday'', ''sunday'', ''start_date'', ''end_date'']"

text \<open>
  The loop over one service's variants in \<open>_generate_calendar_file\<close>, with the set
  \<open>calendar_services\<close> as state.  The calendar is only read for a variant whose id is
  new.
\<close>

fun calendar_variants ::
  "pykey list \<Rightarrow> json list \<Rightarrow> error + (json list list \<times> pykey list)" where
  "calendar_variants calendar_services [] = Inr ([], calendar_services)"
| "calendar_variants calendar_services (variant # rest) =
     (case variant of
        JObj vr \<Rightarrow>
          (let calendar = dict_get vr ''calendar'' (JObj []);
               service_id = dict_get vr ''id'' (JStr [])
           in if \<not> py_truthy service_id then calendar_variants calendar_services rest
              else case py_key service_id of
                None \<Rightarrow> Inl TypeError
              | Some k \<Rightarrow>
                  if k \<in> set calendar_services then calendar_variants calendar_services rest
                  else case calendar of
                    JObj cal \<Rightarrow>
                      (let row = [service_id]
                                 @ map (\<lambda>day. JInt (if py_truthy (dict_get cal day (JBool False))
                                                      then 1 else 0)) weekdays
                                 @ [dict_get cal ''start_date'' (JStr ''20240101''),
                                    dict_get cal ''end_date'' (JStr ''20241231'')]
                       in case calendar_variants (k # calendar_services) rest of
                            Inl e \<Rightarrow> Inl e
                          | Inr (rows, used) \<Rightarrow> Inr (row # rows, used))
                  | _ \<Rightarrow> Inl AttributeError)
      | _ \<Rightarrow> Inl AttributeError)"

fun calendar_rows :: "pykey list \<Rightarrow> json list \<Rightarrow> error + json list list" where
  "calendar_rows calendar_services [] = Inr []"
| "calendar_rows calendar_services (service # rest) =
     (case service of
        JObj sv \<Rightarrow>
          (case py_iter (dict_get sv ''variants'' (JList [])) of
             Inl e \<Rightarrow> Inl e
           | Inr variants \<Rightarrow>
               (case calendar_variants calendar_services variants of
                  Inl e \<Rightarrow> Inl e
                | Inr (rows, used) \<Rightarrow>
                    (case calendar_rows used rest of
                       Inl e \<Rightarrow> Inl e
                     | Inr others \<Rightarrow> Inr (rows @ others))))
      | _ \<Rightarrow> Inl AttributeError)"

definition generate_calendar_file :: "pyenv \<Rightarrow> json \<Rightarrow> error + string" where
  "generate_calendar_file env services =
     ebind (py_iter services) (\<lambda>service_list.
     ebind (calendar_rows [] service_list) (\<lambda>rows.
       Inr (csv_text env calendar_header rows)))"

definition trips_header :: "string list" where
  "trips_header = [''route_id'', ''service_id'', ''trip_id'', ''trip_headsign'',
                   ''trip_short_name'', ''direction_id'', ''block_id'', ''wheelchair_accessible'',
                   ''bikes_allowed'']"

text \<open>The f-string \<open>f"{route_id}_{trip_counter}"\<close>.\<close>

definition trip_id_of :: "pyenv \<Rightarrow> json \<Rightarrow> nat \<Rightarrow> string" where
  "trip_id_of env route_id trip_counter =
     py_str env route_id @ ''_'' @ str_int (int trip_counter)"

text \<open>
  The loop over one service's variants in \<open>_generate_trips_file\<close>; the state is
  \<open>trip_counter\<close>, returned with the rows.
\<close>

fun trips_variants ::
  "pyenv \<Rightarrow> (string \<times> json) list \<Rightarrow> nat \<Rightarrow> json list \<Rightarrow> error + (json list list \<times> nat)" where
  "trips_variants env sv trip_counter [] = Inr ([], trip_counter)"
| "trips_variants env sv trip_counter (variant # rest) =
     (case variant of
        JObj vr \<Rightarrow>
          (let route_id = dict_get sv ''id'' (JStr []);
               service_id = dict_get vr ''id'' (JStr []);
               trip_counter = trip_counter + 1;
               trip_id = trip_id_of env route_id trip_counter;
               row = [route_id, service_id, JStr trip_id,
                      dict_get sv ''route_long_name'' (JStr []),
                      dict_get sv ''route_short_name'' (JStr []),
                      JInt 0, JStr [], JInt 0, JInt 0]
           in case trips_variants env sv trip_counter rest of
                Inl e \<Rightarrow> Inl e
              | Inr (rows, n) \<Rightarrow> Inr (row # rows, n))
      | _ \<Rightarrow> Inl AttributeError)"

fun trips_rows :: "pyenv \<Rightarrow> nat \<Rightarrow> json list \<Rightarrow> error + json list list" where
  "trips_rows env trip_counter [] = Inr []"
| "trips_rows env trip_counter (service # rest) =
     (case service of
        JObj sv \<Rightarrow>
          (case py_iter (dict_get sv ''variants'' (JList [])) of
             Inl e \<Rightarrow> Inl e
           | Inr variants \<Rightarrow>
               (case trips_variants env sv trip_counter variants of
                  Inl e \<Rightarrow> Inl e
                | Inr (rows, n) \<Rightarrow>
                    (case trips_rows env n rest of
                       Inl e \<Rightarrow> Inl e
                     | Inr others \<Rightarrow> Inr (rows @ others))))
      | _ \<Rightarrow> Inl AttributeError)"

definition generate_trips_file :: "pyenv \<Rightarrow> json \<Rightarrow> error + string" where
  "generate_trips_file env services =
     ebind (py_iter services) (\<lambda>service_list.
     ebind (trips_rows env 0 service_list) (\<lambda>rows.
       Inr (csv_text env trips_header rows)))"

definition stop_times_header :: "string list" where
  "stop_times_header = [''trip_id'', ''arrival_time'', ''departure_time'', ''stop_id'',
                        ''stop_sequence'', ''stop_headsign'', ''pickup_type'', ''drop_off_type'',
                        ''timepoint'']"

text \<open>The innermost loop of \<open>_generate_stop_times_file\<close>: one row for each call.\<close>

definition stop_time_row :: "string \<Rightarrow> json \<Rightarrow> error + json list list" where
  "stop_time_row trip_id call =
     (case call of
        JObj cl \<Rightarrow>
          Inr [[JStr trip_id,
                dict_get cl ''arrival_time'' (JStr []),
                dict_get cl ''departure_time'' (JStr []),
                dict_get cl ''station_id'' (JStr []),
                dict_get cl ''stop_sequence'' (JInt 1),
                dict_get cl ''stop_headsign'' (JStr []),
                dict_get cl ''pickup_type'' (JInt 0),
                dict_get cl ''drop_off_type'' (JInt 0),
                dict_get cl ''timepoint'' (JInt 1)]]
      | _ \<Rightarrow> Inl AttributeError)"

text \<open>
  The loop over one service's variants: the variant itself is never read, and every
  variant gets the service's whole call list.  \<open>calls\<close> is only iterated inside this
  loop, once for each variant.
\<close>

fun stop_times_variants ::
  "pyenv \<Rightarrow> json \<Rightarrow> json \<Rightarrow> nat \<Rightarrow> json list \<Rightarrow> error + (json list list \<times> nat)" where
  "stop_times_variants env route_id calls trip_counter [] = Inr ([], trip_counter)"
| "stop_times_variants env route_id calls trip_counter (variant # rest) =
     (let trip_counter = trip_counter + 1;
          trip_id = trip_id_of env route_id trip_counter
      in case py_iter calls of
           Inl e \<Rightarrow> Inl e
         | Inr call_list \<Rightarrow>
             (case for_each (stop_time_row trip_id) call_list of
                Inl e \<Rightarrow> Inl e
              | Inr rows \<Rightarrow>
                  (case stop_times_variants env route_id calls trip_counter rest of
                     Inl e \<Rightarrow> Inl e
                   | Inr (others, n) \<Rightarrow> Inr (rows @ others, n))))"

fun stop_times_rows :: "pyenv \<Rightarrow> nat \<Rightarrow> json list \<Rightarrow> error + json list list" where
  "stop_times_rows env trip_counter [] = Inr []"
| "stop_times_rows env trip_counter (service # rest) =
     (case service of
        JObj sv \<Rightarrow>
          (case py_iter (dict_get sv ''variants'' (JList [])) of
             Inl e \<Rightarrow> Inl e
           | Inr variants \<Rightarrow>
               (case stop_times_variants env (dict_get sv ''id'' (JStr []))
                       (dict_get sv ''calls'' (JList [])) trip_counter variants of
                  Inl e \<Rightarrow> Inl e
                | Inr (rows, n) \<Rightarrow>
                    (case stop_times_rows env n rest of
                       Inl e \<Rightarrow> Inl e
                     | Inr others \<Rightarrow> Inr (rows @ others))))
      | _ \<Rightarrow> Inl AttributeError)"

definition generate_stop_times_file :: "pyenv \<Rightarrow> json \<Rightarrow> error + string" where
  "generate_stop_times_file env services =
     ebind (py_iter services) (\<lambda>service_list.
     ebind (stop_times_rows env 0 service_list) (\<lambda>rows.
       Inr (csv_text env stop_times_header rows)))"

definition feed_info_header :: "string list" where
  "feed_info_header = [''feed_publisher_name'', ''feed_publisher_url'', ''feed_lang'',
                       ''feed_start_date'', ''feed_end_date'', ''feed_version'',
                       ''feed_contact_email'', ''feed_contact_url'']"

text \<open>The order of Python's \<open><\<close> on str: lexicographic by code point.\<close>

fun str_less :: "string \<Rightarrow> string \<Rightarrow> bool" where
  "str_less [] [] = False"
| "str_less [] (b # bs) = True"
| "str_less (a # as) [] = False"
| "str_less (a # as) (b # bs) =
     ((of_char a :: nat) < of_char b \<or> (a = b \<and> str_less as bs))"

text \<open>
  \<open>min(start_date, v)\<close> and \<open>max(end_date, v)\<close> for a truthy \<open>v\<close>: the running bound is
  a str, and only a str is ordered against it.
\<close>

definition min_date :: "string \<Rightarrow> json \<Rightarrow> error + string" where
  "min_date start_date v =
     (case v of
        JStr t \<Rightarrow> Inr (if str_less t start_date then t else start_date)
      | _ \<Rightarrow> Inl TypeError)"

definition max_date :: "string \<Rightarrow> json \<Rightarrow> error + string" where
  "max_date end_date v =
     (case v of
        JStr t \<Rightarrow> Inr (if str_less end_date t then t else end_date)
      | _ \<Rightarrow> Inl TypeError)"

fun feed_variants :: "string \<times> string \<Rightarrow> json list \<Rightarrow> error + (string \<times> string)" where
  "feed_variants (start_date, end_date) [] = Inr (start_date, end_date)"
| "feed_variants (start_date, end_date) (variant # rest) =
     (case variant of
        JObj vr \<Rightarrow>
          (case dict_get vr ''calendar'' (JObj []) of
             JObj cal \<Rightarrow>
               (case (if py_truthy (dict_get cal ''start_date'' JNull)
                      then min_date start_date (dict_get cal ''start_date'' JNull)
                      else Inr start_date) of
                  Inl e \<Rightarrow> Inl e
                | Inr start_date \<Rightarrow>
                    (case (if py_truthy (dict_get cal ''end_date'' JNull)
                           then max_date end_date (dict_get cal ''end_date'' JNull)
                           else Inr end_date) of
                       Inl e \<Rightarrow> Inl e
                     | Inr end_date \<Rightarrow> feed_variants (start_date, end_date) rest))
           | _ \<Rightarrow> Inl AttributeError)
      | _ \<Rightarrow> Inl AttributeError)"

fun feed_services :: "string \<times> string \<Rightarrow> json list \<Rightarrow> error + (string \<times> string)" where
  "feed_services dates [] = Inr dates"
| "feed_services dates (service # rest) =
     (case service of
        JObj sv \<Rightarrow>
          (case py_iter (dict_get sv ''variants'' (JList [])) of
             Inl e \<Rightarrow> Inl e
           | Inr variants \<Rightarrow>
               (case feed_variants dates variants of
                  Inl e \<Rightarrow> Inl e
                | Inr dates \<Rightarrow> feed_services dates rest))
      | _ \<Rightarrow> Inl AttributeError)"

definition generate_feed_info_file :: "pyenv \<Rightarrow> (string \<times> json) list \<Rightarrow> error + string" where
  "generate_feed_info_file env json_data =
     (let publisher = dict_get json_data ''publisher'' (JObj [])
      in ebind (py_iter (dict_get json_data ''services'' (JList []))) (\<lambda>service_list.
         ebind (feed_services (''20240101'', ''20241231'') service_list) (\<lambda>(start_date, end_date).
           case publisher of
             JObj pb \<Rightarrow>
               Inr (csv_text env feed_info_header
                      [[dict_get pb ''name'' (JStr ''TSI Data Publisher''),
                        dict_get pb ''url'' (JStr []),
                        JStr ''en'',
                        JStr start_date,
                        JStr end_date,
                        JStr (today env),
                        dict_get pb ''email'' (JStr []),
                        dict_get pb ''url'' (JStr [])]])
           | _ \<Rightarrow> Inl AttributeError)))"

section \<open>GTFS writer: entry point\<close>

text \<open>
  \<open>write_gtfs_static(json_data)\<close>.  The result dict is the association list of the
  seven files in the order they are stored.
\<close>

definition write_gtfs_static ::
  "pyenv \<Rightarrow> (string \<times> json) list \<Rightarrow> error + (string \<times> string) list" where
  "write_gtfs_static env json_data =
     (case map_of json_data ''agencies'' of
        None \<Rightarrow> Inl (ValueError ''Missing required 'agencies' data'')
      | Some agencies \<Rightarrow>
     (case map_of json_data ''stations'' of
        None \<Rightarrow> Inl (ValueError ''Missing required 'stations' data'')
      | Some stations \<Rightarrow>
     (case map_of json_data ''services'' of
        None \<Rightarrow> Inl (ValueError ''Missing required 'services' data'')
      | Some services \<Rightarrow>
          if \<not> py_truthy agencies \<or> \<not> py_truthy stations \<or> \<not> py_truthy services
          then Inl (ValueError ''Agencies, stations, and services cannot be empty'')
          else
            ebind (generate_agency_file env agencies) (\<lambda>agency_txt.
            ebind (generate_stops_file env stations) (\<lambda>stops_txt.
            ebind (generate_routes_file env services agencies) (\<lambda>routes_txt.
            ebind (generate_calendar_file env services) (\<lambda>calendar_txt.
            ebind (generate_trips_file env services) (\<lambda>trips_txt.
            ebind (generate_stop_times_file env services) (\<lambda>stop_times_txt.
            ebind (generate_feed_info_file env json_data) (\<lambda>feed_info_txt.
              Inr [(''agency.txt'', agency_txt),
                   (''stops.txt'', stops_txt),
                   (''routes.txt'', routes_txt),
                   (''calendar.txt'', calendar_txt),
                   (''trips.txt'', trips_txt),
                   (''stop_times.txt'', stop_times_txt),
                   (''feed_info.txt'', feed_info_txt)]))))))))))"

section \<open>File handler: filename sanitizing\<close>

text \<open>
  The class \<open>\w\<close> of a str pattern on the code points below U+0100: the underscore and
  what \<open>str.isalnum\<close> accepts, that is the ASCII letters and digits, the letters of the
  Latin-1 block, its superscript digits and its vulgar fractions.
\<close>

definition word_char :: "char \<Rightarrow> bool" where
  "word_char c =
     (let n = (of_char c :: nat)
      in (48 \<le> n \<and> n \<le> 57) \<or> (65 \<le> n \<and> n \<le> 90) \<or> n = 95 \<or> (97 \<le> n \<and> n \<le> 122)
         \<or> n = 170 \<or> n = 178 \<or> n = 179 \<or> n = 181 \<or> n = 185 \<or> n = 186
         \<or> (188 \<le> n \<and> n \<le> 190) \<or> (192 \<le> n \<and> n \<le> 214) \<or> (216 \<le> n \<and> n \<le> 246)
         \<or> (248 \<le> n \<and> n \<le> 255))"

text \<open>The characters the pattern \<open>[^\w\-_\.]\<close> leaves alone.\<close>

definition safe_char :: "char \<Rightarrow> bool" where
  "safe_char c = (word_char c \<or> c = CHR ''-'' \<or> c = CHR ''_'' \<or> c = CHR ''.'')"

text \<open>\<open>p.rfind(c)\<close>: the highest index of \<open>c\<close>, if there is one.\<close>

fun rfind :: "string \<Rightarrow> char \<Rightarrow> nat option" where
  "rfind [] c = None"
| "rfind (x # xs) c =
     (case rfind xs c of
        Some i \<Rightarrow> Some (Suc i)
      | None \<Rightarrow> (if x = c then Some 0 else None))"

text \<open>
  \<open>os.path.splitext(p)\<close> for a path without directory separators, which a sanitized
  name is: it splits at the last dot, unless only dots come before it.
\<close>

definition splitext :: "string \<Rightarrow> string \<times> string" where
  "splitext p =
     (case rfind p (CHR ''.'') of
        None \<Rightarrow> (p, [])
      | Some dotIndex \<Rightarrow>
          if list_ex (\<lambda>c. c \<noteq> CHR ''.'') (take dotIndex p)
          then (take dotIndex p, drop dotIndex p)
          else (p, []))"

text \<open>\<open>FileHandler._sanitize_filename(filename)\<close>.\<close>

definition sanitize_filename :: "string \<Rightarrow> string" where
  "sanitize_filename filename =
     (let safe_filename = map (\<lambda>c. if safe_char c then c else CHR ''_'') filename;
          safe_filename = (if length safe_filename > 100
                           then (case splitext safe_filename of (name, ext) \<Rightarrow> take 95 name @ ext)
                           else safe_filename);
          safe_filename = (if CHR ''.'' \<notin> set safe_filename
                           then safe_filename @ ''.txt'' else safe_filename)
      in safe_filename)"

section \<open>HTTP service: validation\<close>

text \<open>
  The enumeration \<open>ValidationLevel\<close> of \<open>models.py\<close> and the error entries that
  \<open>validate_data\<close> builds.
\<close>

datatype ValidationLevel = STANDARD | STRICT

definition level_value :: "ValidationLevel \<Rightarrow> string" where
  "level_value l = (case l of STANDARD \<Rightarrow> ''standard'' | STRICT \<Rightarrow> ''strict'')"

record validation_error =
  code :: string
  message :: string
  field :: string
  severity :: string

text \<open>
  The part of the \<open>ValidationResult\<close> that the request determines.  The job id, the
  processing time and the timestamp come from the clock and a random UUID, and the
  percentages of the details block are floating-point numbers; they are left out.
\<close>

record validation_result =
  vr_format :: string
  vr_validation_level :: string
  vr_status :: string
  is_valid :: bool
  total_records :: int
  valid_records :: int
  errors :: "validation_error list"
  warnings :: "validation_error list"
  notices :: "validation_error list"
  recommendations :: "string list"

text \<open>The values of a dict, one for each key.\<close>

definition dict_values :: "(string \<times> json) list \<Rightarrow> json list" where
  "dict_values kvs = map (\<lambda>k. dict_get kvs k JNull) (dict_keys kvs)"

text \<open>\<open>validate_data(request)\<close> on the request's \<open>format\<close>, \<open>input_data\<close> and
  \<open>validation_level\<close>.\<close>

definition validate_data ::
  "string \<Rightarrow> (string \<times> json) list \<Rightarrow> ValidationLevel \<Rightarrow> validation_result" where
  "validate_data format input_data validation_level =
     (let errors =
            (if format = ''json-transport''
             then (if map_of input_data ''agencies'' = None
                   then [\<lparr>code = ''MISSING_REQUIRED_FIELD'',
                          message = ''Required field 'agencies' is missing'',
                          field = ''agencies'',
                          severity = ''error''\<rparr>]
                   else [])
             else []);
          warnings = [];
          notices = [];
          total_records =
            sum_list (map (\<lambda>v. case v of JList xs \<Rightarrow> int (length xs) | _ \<Rightarrow> 1)
                          (dict_values input_data));
          valid_records = total_records - int (length errors)
      in \<lparr>vr_format = format,
          vr_validation_level = level_value validation_level,
          vr_status = ''completed'',
          is_valid = (length errors = 0),
          total_records = total_records,
          valid_records = valid_records,
          errors = errors,
          warnings = warnings,
          notices = notices,
          recommendations =
            (if errors \<noteq> []
             then [''Fix validation errors to improve data quality'',
                   ''Consider adding optional fields for better usability'']
             else [''Data validation passed successfully'',
                   ''Consider periodic validation checks''])\<rparr>)"

section \<open>Auxiliary definitions for the statements\<close>

text \<open>
  What the four replacements of \<open>escape\<close> do to one character when the separators are
  pairwise distinct.
\<close>

definition escape_char :: "Sep \<Rightarrow> char \<Rightarrow> string" where
  "escape_char s c =
     (if c = s_rel s \<or> c = s_seg s \<or> c = s_elem s \<or> c = s_comp s then [s_rel s, c] else [c])"

text \<open>An interpreter environment for the concrete examples.\<close>

definition test_env :: pyenv where
  "test_env = \<lparr>py_repr = (\<lambda>v. []), today = ''20240101''\<rparr>"

text \<open>
  The spec's reading of the train number: the first non-empty value among
  \<open>train_number\<close>, \<open>route_short_name\<close> and \<open>id\<close>.  It is compared below with
  \<open>train_number_of\<close>, which is the source's expression.
\<close>

definition first_non_empty :: "(string \<times> json) list \<Rightarrow> json" where
  "first_non_empty sv =
     (if py_truthy (dict_get sv ''train_number'' (JStr [])) then dict_get sv ''train_number'' (JStr [])
      else if py_truthy (dict_get sv ''route_short_name'' (JStr []))
      then dict_get sv ''route_short_name'' (JStr [])
      else dict_get sv ''id'' (JStr []))"

text \<open>A run that ends with a \<open>ValueError\<close>, the spec's Invalid-Input.\<close>

definition is_value_error :: "error + 'a \<Rightarrow> bool" where
  "is_value_error r = (case r of Inl (ValueError m) \<Rightarrow> True | _ \<Rightarrow> False)"

text \<open>
  The variants and the calls of a service as the loops iterate them, its route id, and
  the list that names, for each trip in document order, the service it belongs to: every
  service once for each of its variants.
\<close>

definition variants_of :: "json \<Rightarrow> json list" where
  "variants_of service =
     (case service of
        JObj sv \<Rightarrow> (case py_iter (dict_get sv ''variants'' (JList [])) of Inr vs \<Rightarrow> vs | Inl e \<Rightarrow> [])
      | _ \<Rightarrow> [])"

definition calls_of :: "json \<Rightarrow> json list" where
  "calls_of service =
     (case service of
        JObj sv \<Rightarrow> (case py_iter (dict_get sv ''calls'' (JList [])) of Inr cs \<Rightarrow> cs | Inl e \<Rightarrow> [])
      | _ \<Rightarrow> [])"

definition route_id_of :: "json \<Rightarrow> json" where
  "route_id_of service = (case service of JObj sv \<Rightarrow> dict_get sv ''id'' (JStr []) | _ \<Rightarrow> JStr [])"

definition trip_owners :: "json list \<Rightarrow> json list" where
  "trip_owners services = concat (map (\<lambda>service. replicate (length (variants_of service)) service) services)"

text \<open>The default UNA string of both entry points, \<open>UNA:+.? '\<close>.\<close>

definition default_una :: string where
  "default_una = ''UNA:+.? '' @ [CHR 0x27]"

text \<open>
  The trip ids the claim on trips and stop times expects, for the trips numbered from
  \<open>n\<close> on and owned by the given services: in \<open>trips.txt\<close> one id for each trip, in
  \<open>stop_times.txt\<close> the id of each trip once for every call of its service.
\<close>

definition trip_ids :: "pyenv \<Rightarrow> nat \<Rightarrow> json list \<Rightarrow> json list" where
  "trip_ids env n owners =
     map (\<lambda>(i, service). JStr (trip_id_of env (route_id_of service) i)) (enumerate n owners)"

definition stop_time_trip_ids :: "pyenv \<Rightarrow> nat \<Rightarrow> json list \<Rightarrow> json list" where
  "stop_time_trip_ids env n owners =
     concat (map (\<lambda>(i, service).
                    replicate (length (calls_of service))
                      (JStr (trip_id_of env (route_id_of service) i)))
                 (enumerate n owners))"

text \<open>A small document with two services, three variants and three calls.\<close>

definition example_services :: json where
  "example_services =
     JList [JObj [(''id'', JStr ''R1''),
                  (''variants'', JList [JObj [(''id'', JStr ''V1'')], JObj [(''id'', JStr ''V2'')]]),
                  (''calls'', JList [JObj [(''station_id'', JStr ''ST1'')],
                                     JObj [(''station_id'', JStr ''ST2'')]])],
            JObj [(''id'', JStr ''R2''),
                  (''variants'', JList [JObj [(''id'', JStr ''V3'')]]),
                  (''calls'', JList [JObj [(''station_id'', JStr ''ST1'')]])]]"

definition example_document :: "(string \<times> json) list" where
  "example_document =
     [(''agencies'', JList [JObj [(''id'', JStr ''A1'')]]),
      (''stations'', JList [JObj [(''id'', JStr ''ST1'')], JObj [(''id'', JStr ''ST2'')]]),
      (''services'', example_services)]"

section \<open>Sequencing and loops\<close>

lemma ebind_Inr [simp]: "ebind (Inr x) f = f x"
  by (simp add: ebind_def)

lemma ebind_Inl [simp]: "ebind (Inl e) f = Inl e"
  by (simp add: ebind_def)

lemma ebind_eq_Inr: "ebind m f = Inr y \<longleftrightarrow> (\<exists>x. m = Inr x \<and> f x = Inr y)"
  by (cases m) simp_all

lemma seg_tag: "length tag = 3 \<Longrightarrow> take 3 (seg env tag els s) = tag"
  by (simp add: seg_def Let_def)

lemma filter_for_each_Nil:
  assumes "\<And>x ys. f x = Inr ys \<Longrightarrow> filter P ys = []"
    and "for_each f xs = Inr zs"
  shows "filter P zs = []"
  using assms(2)
proof (induction xs arbitrary: zs)
  case Nil
  then show ?case by simp
next
  case (Cons x xs)
  then show ?case
    by (auto split: sum.splits dest: assms(1))
qed

section \<open>Where a ValueError can come from\<close>

text \<open>Apart from the checks at the head of the entry points, no step of the EDIFACT writer
  ends with a \<open>ValueError\<close>.\<close>

lemma nve_Inr [simp]: "\<not> is_value_error (Inr x)"
  by (simp add: is_value_error_def)

lemma nve_TypeError [simp]: "\<not> is_value_error (Inl TypeError)"
  by (simp add: is_value_error_def)

lemma nve_AttributeError [simp]: "\<not> is_value_error (Inl AttributeError)"
  by (simp add: is_value_error_def)

lemma ive_ValueError [simp]: "is_value_error (Inl (ValueError m))"
  by (simp add: is_value_error_def)

lemma nve_iff: "\<not> is_value_error r \<longleftrightarrow> (\<forall>m. r \<noteq> Inl (ValueError m))"
  by (auto simp: is_value_error_def split: sum.splits error.splits)

lemma nve_ebind:
  "\<not> is_value_error m \<Longrightarrow> (\<And>x. \<not> is_value_error (f x)) \<Longrightarrow> \<not> is_value_error (ebind m f)"
  by (cases m) (simp_all add: is_value_error_def)

lemma nve_for_each:
  "(\<And>x. \<not> is_value_error (f x)) \<Longrightarrow> \<not> is_value_error (for_each f xs)"
proof (induction xs)
  case Nil
  show ?case by simp
next
  case (Cons x xs)
  then show ?case
    by (auto simp: nve_iff split: sum.splits)
qed

lemma nve_py_iter [simp]: "\<not> is_value_error (py_iter v)"
  by (simp add: py_iter_def split: json.splits)

lemma nve_py_get [simp]: "\<not> is_value_error (py_get v k d)"
  by (simp add: py_get_def split: json.splits)

lemma nve_py_slice_to [simp]: "\<not> is_value_error (py_slice_to n v)"
  by (simp add: py_slice_to_def split: json.splits)

lemma nve_generate_deterministic_ref [simp]:
  "\<not> is_value_error (generate_deterministic_ref env p v)"
  by (simp add: generate_deterministic_ref_def Let_def nve_ebind)

lemma nve_tsdupd_station [simp]: "\<not> is_value_error (tsdupd_station env s st)"
  by (simp add: tsdupd_station_def Let_def split: json.splits)

lemma nve_map_tsdupd_segments [simp]: "\<not> is_value_error (map_tsdupd_segments env st s)"
  by (simp add: map_tsdupd_segments_def nve_ebind nve_for_each)

lemma nve_find_carrier_name [simp]: "\<not> is_value_error (find_carrier_name ags k)"
  by (induction ags) (simp_all split: json.splits)

lemma nve_skdupd_carrier [simp]: "\<not> is_value_error (skdupd_carrier env ags s used c)"
  by (simp add: skdupd_carrier_def Let_def nve_ebind split: option.splits)

lemma nve_skdupd_date [simp]: "\<not> is_value_error (skdupd_date env s q d)"
  by (simp add: skdupd_date_def split: json.splits)

lemma nve_skdupd_variant [simp]: "\<not> is_value_error (skdupd_variant env s v)"
  by (simp add: skdupd_variant_def Let_def nve_ebind split: json.splits)

lemma nve_format_time_for_dtm [simp]: "\<not> is_value_error (format_time_for_dtm t)"
  by (simp add: format_time_for_dtm_def Let_def split: json.splits)

lemma nve_skdupd_time [simp]: "\<not> is_value_error (skdupd_time env s q t)"
  by (simp add: skdupd_time_def nve_ebind)

lemma nve_positive_offset [simp]: "\<not> is_value_error (positive_offset d)"
  by (simp add: positive_offset_def split: json.splits)

lemma nve_skdupd_call [simp]: "\<not> is_value_error (skdupd_call env s c)"
  by (simp add: skdupd_call_def Let_def nve_ebind split: json.splits)

lemma nve_skdupd_service [simp]: "\<not> is_value_error (skdupd_service env s sv)"
  by (simp add: skdupd_service_def Let_def nve_ebind nve_for_each)

lemma nve_skdupd_services [simp]: "\<not> is_value_error (skdupd_services env ags s used xs)"
proof (induction xs arbitrary: used)
  case Nil
  show ?case by simp
next
  case (Cons x xs)
  have c: "skdupd_carrier env ags s used c \<noteq> Inl (ValueError m)" for c m
    by (metis ive_ValueError nve_skdupd_carrier)
  have sv: "skdupd_service env s sv \<noteq> Inl (ValueError m)" for sv m
    by (metis ive_ValueError nve_skdupd_service)
  show ?case
    using Cons.IH c sv
    by (auto simp: nve_iff split: json.splits sum.splits prod.splits)
qed

lemma nve_map_skdupd_segments [simp]: "\<not> is_value_error (map_skdupd_segments env ags svs s)"
  by (simp add: map_skdupd_segments_def nve_ebind)

lemma nve_assemble:
  "\<not> is_value_error (body s) \<Longrightarrow> \<not> is_value_error (assemble env doc version una s mt body)"
  by (simp add: assemble_def Let_def nve_ebind)

section \<open>The shape of an accepted EDIFACT message\<close>

lemma make_unt_text:
  "make_unt env n ref s
     = ''UNT'' @ [s_elem s] @ escape (str_int n) s @ [s_elem s] @ escape ref s @ [s_seg s]"
  by (simp add: make_unt_def seg_def py_str_def)

lemma assemble_Inr:
  assumes "assemble env doc version una s mt body = Inr segs"
  shows "\<exists>sender iref ts bsegs.
           body s = Inr bsegs
         \<and> segs = [una, make_unb env sender ''RECEIVER'' iref ts s,
                   make_unh env (iref @ ''01'') mt version s]
                  @ bsegs
                  @ [make_unt env (int (length bsegs) + 2) (iref @ ''01'') s,
                     make_unz env 1 iref s]"
  using assms by (auto simp: assemble_def Let_def ebind_eq_Inr)

lemma skdupd_segments_Inr:
  assumes "skdupd_segments env doc version una = Inr segs"
  shows "length una = 9 \<and> prefix ''UNA'' una
       \<and> (\<exists>agencies services sender iref ts body.
            map_of doc ''agencies'' = Some agencies
          \<and> map_of doc ''services'' = Some services
          \<and> map_skdupd_segments env agencies services (sep_of_una una) = Inr body
          \<and> segs = [una, make_unb env sender ''RECEIVER'' iref ts (sep_of_una una),
                    make_unh env (iref @ ''01'') ''SKDUPD'' version (sep_of_una una)]
                   @ body
                   @ [make_unt env (int (length body) + 2) (iref @ ''01'') (sep_of_una una),
                      make_unz env 1 iref (sep_of_una una)])"
proof -
  from assms obtain agencies services where
    u: "length una = 9" "prefix ''UNA'' una"
    and a: "map_of doc ''agencies'' = Some agencies"
    and sv: "map_of doc ''services'' = Some services"
    and asm: "assemble env doc version una (sep_of_una una) ''SKDUPD''
                (map_skdupd_segments env agencies services) = Inr segs"
    by (auto simp: skdupd_segments_def invalid_una_def Let_def split: if_splits option.splits)
  from assemble_Inr [OF asm] a sv u show ?thesis
    by blast
qed

lemma tsdupd_segments_Inr:
  assumes "tsdupd_segments env doc version una = Inr segs"
  shows "length una = 9 \<and> prefix ''UNA'' una
       \<and> (\<exists>stations sender iref ts body.
            map_of doc ''stations'' = Some stations
          \<and> map_tsdupd_segments env stations (sep_of_una una) = Inr body
          \<and> segs = [una, make_unb env sender ''RECEIVER'' iref ts (sep_of_una una),
                    make_unh env (iref @ ''01'') ''TSDUPD'' version (sep_of_una una)]
                   @ body
                   @ [make_unt env (int (length body) + 2) (iref @ ''01'') (sep_of_una una),
                      make_unz env 1 iref (sep_of_una una)])"
proof -
  from assms obtain stations where
    u: "length una = 9" "prefix ''UNA'' una"
    and st: "map_of doc ''stations'' = Some stations"
    and asm: "assemble env doc version una (sep_of_una una) ''TSDUPD''
                (map_tsdupd_segments env stations) = Inr segs"
    by (auto simp: tsdupd_segments_def invalid_una_def Let_def split: if_splits option.splits)
  from assemble_Inr [OF asm] st u show ?thesis
    by blast
qed

lemma skdupd_segments_una:
  "skdupd_segments env doc version una = Inl (ValueError (''Invalid UNA string: '' @ una))
     \<longleftrightarrow> length una \<noteq> 9 \<or> \<not> prefix ''UNA'' una"
proof (cases "invalid_una una")
  case True
  then show ?thesis by (simp add: skdupd_segments_def invalid_una_def)
next
  case False
  have "\<not> is_value_error (assemble env doc version una (sep_of_una una) ''SKDUPD''
                            (map_skdupd_segments env ags svs))" for ags svs
    by (rule nve_assemble) simp
  then have "assemble env doc version una (sep_of_una una) ''SKDUPD''
               (map_skdupd_segments env ags svs) \<noteq> Inl (ValueError m)" for ags svs m
    by (metis ive_ValueError)
  with False show ?thesis
    by (auto simp: skdupd_segments_def invalid_una_def Let_def split: option.splits)
qed

lemma tsdupd_segments_una:
  "tsdupd_segments env doc version una = Inl (ValueError (''Invalid UNA string: '' @ una))
     \<longleftrightarrow> length una \<noteq> 9 \<or> \<not> prefix ''UNA'' una"
proof (cases "invalid_una una")
  case True
  then show ?thesis by (simp add: tsdupd_segments_def invalid_una_def)
next
  case False
  have "\<not> is_value_error (assemble env doc version una (sep_of_una una) ''TSDUPD''
                            (map_tsdupd_segments env sts))" for sts
    by (rule nve_assemble) simp
  then have "assemble env doc version una (sep_of_una una) ''TSDUPD''
               (map_tsdupd_segments env sts) \<noteq> Inl (ValueError m)" for sts m
    by (metis ive_ValueError)
  with False show ?thesis
    by (auto simp: tsdupd_segments_def invalid_una_def Let_def split: option.splits)
qed

lemma write_skdupd_Inl: "write_skdupd env doc version una = Inl e \<longleftrightarrow> skdupd_segments env doc version una = Inl e"
  by (cases "skdupd_segments env doc version una") (simp_all add: write_skdupd_def)

lemma write_tsdupd_Inl: "write_tsdupd env doc version una = Inl e \<longleftrightarrow> tsdupd_segments env doc version una = Inl e"
  by (cases "tsdupd_segments env doc version una") (simp_all add: write_tsdupd_def)

lemma write_skdupd_Inr: "write_skdupd env doc version una = Inr msg \<longleftrightarrow> (\<exists>segs. skdupd_segments env doc version una = Inr segs \<and> msg = concat segs)"
  by (cases "skdupd_segments env doc version una") (auto simp: write_skdupd_def)

lemma write_tsdupd_Inr: "write_tsdupd env doc version una = Inr msg \<longleftrightarrow> (\<exists>segs. tsdupd_segments env doc version una = Inr segs \<and> msg = concat segs)"
  by (cases "tsdupd_segments env doc version una") (auto simp: write_tsdupd_def)

section \<open>Two accepted documents\<close>

lemma sep_default_una: "sep_of_una default_una = default_Sep"
  by (simp add: sep_of_una_def default_Sep_def default_una_def)

lemma valid_default_una: "\<not> invalid_una default_una"
  by (simp add: invalid_una_def default_una_def)

lemma skdupd_example_body:
  "map_skdupd_segments test_env
     (JList [JObj [(''id'', JStr ''A1''), (''name'', JStr ''Test Rail'')]])
     (JList [JObj [(''id'', JStr ''S1''), (''agency_id'', JStr ''A1''),
                   (''route_short_name'', JStr ''101'')]])
     default_Sep
   = Inr [''NAD+CA+A1++Test Rail'' @ [CHR 0x27], ''TDT+20+101'' @ [CHR 0x27]]"
  by (simp add: map_skdupd_segments_def py_iter_def skdupd_carrier_def skdupd_service_def
      skdupd_tdt_def train_number_of_def dict_get_def py_truthy_def py_key_def
      seg_def py_str_def escape_def default_Sep_def Let_def)

lemma skdupd_example_accepted:
  "\<exists>msg. write_skdupd test_env
           [(''agencies'', JList [JObj [(''id'', JStr ''A1''), (''name'', JStr ''Test Rail'')]]),
            (''services'', JList [JObj [(''id'', JStr ''S1''), (''agency_id'', JStr ''A1''),
                                        (''route_short_name'', JStr ''101'')]])]
           ''CURRENT'' default_una = Inr msg"
  by (simp add: write_skdupd_def skdupd_segments_def valid_default_una sep_default_una
      py_truthy_def assemble_def dict_get_def generate_deterministic_ref_def py_get_def
      py_slice_to_def Let_def skdupd_example_body)

lemma tsdupd_example_accepted:
  "\<exists>msg. write_tsdupd test_env
           [(''stations'', JList [JObj [(''id'', JStr ''S1''), (''name'', JStr ''Greenwich'')]])]
           ''CURRENT'' default_una = Inr msg"
  by (simp add: write_tsdupd_def tsdupd_segments_def valid_default_una sep_default_una
      py_truthy_def assemble_def dict_get_def generate_deterministic_ref_def py_get_def
      py_slice_to_def Let_def map_tsdupd_segments_def py_iter_def tsdupd_station_def)

section \<open>The GTFS generators raise no ValueError\<close>

lemma nve_agency_row [simp]: "\<not> is_value_error (agency_row a)"
  by (simp add: agency_row_def split: json.splits)

lemma nve_stops_row [simp]: "\<not> is_value_error (stops_row a)"
  by (simp add: stops_row_def split: json.splits)

lemma nve_routes_row [simp]: "\<not> is_value_error (routes_row a)"
  by (simp add: routes_row_def split: json.splits)

lemma nve_stop_time_row [simp]: "\<not> is_value_error (stop_time_row t c)"
  by (simp add: stop_time_row_def split: json.splits)

lemma nve_generate_agency_file [simp]: "\<not> is_value_error (generate_agency_file env a)"
  by (simp add: generate_agency_file_def nve_ebind nve_for_each)

lemma nve_generate_stops_file [simp]: "\<not> is_value_error (generate_stops_file env a)"
  by (simp add: generate_stops_file_def nve_ebind nve_for_each)

lemma nve_generate_routes_file [simp]: "\<not> is_value_error (generate_routes_file env a b)"
  by (simp add: generate_routes_file_def nve_ebind nve_for_each)

lemma nve_calendar_variants [simp]: "\<not> is_value_error (calendar_variants used vs)"
proof (induction vs arbitrary: used)
  case Nil
  show ?case by simp
next
  case (Cons v vs)
  then show ?case
    by (auto simp: nve_iff Let_def split: json.splits option.splits sum.splits prod.splits)
qed

lemma nve_calendar_rows [simp]: "\<not> is_value_error (calendar_rows used svs)"
proof (induction svs arbitrary: used)
  case Nil
  show ?case by simp
next
  case (Cons x xs)
  have v: "calendar_variants used vs \<noteq> Inl (ValueError m)" for vs m
    by (metis ive_ValueError nve_calendar_variants)
  have i: "py_iter w \<noteq> Inl (ValueError m)" for w m
    by (metis ive_ValueError nve_py_iter)
  show ?case
    using Cons.IH v i
    by (auto simp: nve_iff split: json.splits sum.splits prod.splits)
qed

lemma nve_generate_calendar_file [simp]: "\<not> is_value_error (generate_calendar_file env a)"
  by (simp add: generate_calendar_file_def nve_ebind)

lemma nve_trips_variants [simp]: "\<not> is_value_error (trips_variants env sv n vs)"
proof (induction vs arbitrary: n)
  case Nil
  show ?case by simp
next
  case (Cons v vs)
  then show ?case
    by (auto simp: nve_iff Let_def split: json.splits sum.splits prod.splits)
qed

lemma nve_trips_rows [simp]: "\<not> is_value_error (trips_rows env n svs)"
proof (induction svs arbitrary: n)
  case Nil
  show ?case by simp
next
  case (Cons x xs)
  have v: "trips_variants env sv n vs \<noteq> Inl (ValueError m)" for sv vs m
    by (metis ive_ValueError nve_trips_variants)
  have i: "py_iter w \<noteq> Inl (ValueError m)" for w m
    by (metis ive_ValueError nve_py_iter)
  show ?case
    using Cons.IH v i
    by (auto simp: nve_iff split: json.splits sum.splits prod.splits)
qed

lemma nve_generate_trips_file [simp]: "\<not> is_value_error (generate_trips_file env a)"
  by (simp add: generate_trips_file_def nve_ebind)

lemma nve_stop_times_variants [simp]:
  "\<not> is_value_error (stop_times_variants env rid calls n vs)"
proof (induction vs arbitrary: n)
  case Nil
  show ?case by simp
next
  case (Cons v vs)
  have f: "for_each (stop_time_row t) cs \<noteq> Inl (ValueError m)" for t cs m
    by (metis ive_ValueError nve_for_each nve_stop_time_row)
  have i: "py_iter w \<noteq> Inl (ValueError m)" for w m
    by (metis ive_ValueError nve_py_iter)
  show ?case
    using Cons.IH f i
    by (auto simp: nve_iff Let_def split: sum.splits prod.splits)
qed

lemma nve_stop_times_rows [simp]: "\<not> is_value_error (stop_times_rows env n svs)"
proof (induction svs arbitrary: n)
  case Nil
  show ?case by simp
next
  case (Cons x xs)
  have v: "stop_times_variants env rid calls n vs \<noteq> Inl (ValueError m)" for rid calls vs m
    by (metis ive_ValueError nve_stop_times_variants)
  have i: "py_iter w \<noteq> Inl (ValueError m)" for w m
    by (metis ive_ValueError nve_py_iter)
  show ?case
    using Cons.IH v i
    by (auto simp: nve_iff split: json.splits sum.splits prod.splits)
qed

lemma nve_generate_stop_times_file [simp]: "\<not> is_value_error (generate_stop_times_file env a)"
  by (simp add: generate_stop_times_file_def nve_ebind)

lemma nve_min_date [simp]: "\<not> is_value_error (min_date d v)"
  by (simp add: min_date_def split: json.splits)

lemma nve_max_date [simp]: "\<not> is_value_error (max_date d v)"
  by (simp add: max_date_def split: json.splits)

lemma nve_feed_variants [simp]: "\<not> is_value_error (feed_variants dates vs)"
proof (induction vs arbitrary: dates)
  case Nil
  show ?case by (cases dates) simp
next
  case (Cons v vs)
  obtain a b where d: "dates = (a, b)" by (cases dates)
  have mn: "min_date x y \<noteq> Inl (ValueError m)" for x y m
    by (metis ive_ValueError nve_min_date)
  have mx: "max_date x y \<noteq> Inl (ValueError m)" for x y m
    by (metis ive_ValueError nve_max_date)
  show ?case
    using Cons.IH mn mx unfolding d
    by (auto simp: nve_iff split: json.splits sum.splits if_splits)
qed

lemma nve_feed_services [simp]: "\<not> is_value_error (feed_services dates svs)"
proof (induction svs arbitrary: dates)
  case Nil
  show ?case by simp
next
  case (Cons x xs)
  obtain a b where d: "dates = (a, b)" by (cases dates)
  have v: "feed_variants (a, b) vs \<noteq> Inl (ValueError m)" for vs m
    by (metis ive_ValueError nve_feed_variants)
  have i: "py_iter w \<noteq> Inl (ValueError m)" for w m
    by (metis ive_ValueError nve_py_iter)
  show ?case
    using Cons.IH v i unfolding d
    by (auto simp: nve_iff split: json.splits sum.splits)
qed

lemma nve_generate_feed_info_file [simp]: "\<not> is_value_error (generate_feed_info_file env d)"
  unfolding generate_feed_info_file_def Let_def
  by (intro nve_ebind) (simp_all split: json.splits prod.splits)

lemma nve_gtfs_files:
  "\<not> is_value_error
       (ebind (generate_agency_file env agencies) (\<lambda>agency_txt.
        ebind (generate_stops_file env stations) (\<lambda>stops_txt.
        ebind (generate_routes_file env services agencies) (\<lambda>routes_txt.
        ebind (generate_calendar_file env services) (\<lambda>calendar_txt.
        ebind (generate_trips_file env services) (\<lambda>trips_txt.
        ebind (generate_stop_times_file env services) (\<lambda>stop_times_txt.
        ebind (generate_feed_info_file env json_data) (\<lambda>feed_info_txt.
          Inr [(''agency.txt'', agency_txt),
               (''stops.txt'', stops_txt),
               (''routes.txt'', routes_txt),
               (''calendar.txt'', calendar_txt),
               (''trips.txt'', trips_txt),
               (''stop_times.txt'', stop_times_txt),
               (''feed_info.txt'', feed_info_txt)]))))))))"
  by (intro nve_ebind) simp_all

lemma write_gtfs_static_value_error:
  "is_value_error (write_gtfs_static env doc) \<longleftrightarrow>
     (\<exists>k \<in> {''agencies'', ''stations'', ''services''}.
        map_of doc k = None \<or> (\<exists>v. map_of doc k = Some v \<and> \<not> py_truthy v))"
  using nve_gtfs_files [of env _ _ _ doc]
  by (auto simp: write_gtfs_static_def split: option.splits)

section \<open>The trip counter in trips.txt and stop_times.txt\<close>

lemma trip_ids_Nil [simp]: "trip_ids env n [] = []"
  by (simp add: trip_ids_def)

lemma trip_ids_Cons:
  "trip_ids env n (x # xs) = JStr (trip_id_of env (route_id_of x) n) # trip_ids env (Suc n) xs"
  by (simp add: trip_ids_def)

lemma trip_ids_append:
  "trip_ids env n (xs @ ys) = trip_ids env n xs @ trip_ids env (n + length xs) ys"
  by (simp add: trip_ids_def enumerate_append_eq)

lemma length_trip_ids [simp]: "length (trip_ids env n xs) = length xs"
  by (simp add: trip_ids_def)

lemma stop_time_trip_ids_Nil [simp]: "stop_time_trip_ids env n [] = []"
  by (simp add: stop_time_trip_ids_def)

lemma stop_time_trip_ids_Cons:
  "stop_time_trip_ids env n (x # xs)
     = replicate (length (calls_of x)) (JStr (trip_id_of env (route_id_of x) n))
       @ stop_time_trip_ids env (Suc n) xs"
  by (simp add: stop_time_trip_ids_def)

lemma stop_time_trip_ids_append:
  "stop_time_trip_ids env n (xs @ ys)
     = stop_time_trip_ids env n xs @ stop_time_trip_ids env (n + length xs) ys"
  by (simp add: stop_time_trip_ids_def enumerate_append_eq)

lemma length_trip_owners:
  "length (trip_owners svs) = sum_list (map (\<lambda>service. length (variants_of service)) svs)"
  by (induction svs) (simp_all add: trip_owners_def)

lemma trip_owners_Cons:
  "trip_owners (x # xs) = replicate (length (variants_of x)) x @ trip_owners xs"
  by (simp add: trip_owners_def)

lemma trips_variants_Inr:
  "trips_variants env sv n vs = Inr (rows, m) \<Longrightarrow>
     m = n + length vs
     \<and> map (\<lambda>row. row ! 2) rows = trip_ids env (Suc n) (replicate (length vs) (JObj sv))"
proof (induction vs arbitrary: n rows m)
  case Nil
  then show ?case by simp
next
  case (Cons v vs)
  from Cons.prems obtain vr rest where
    r: "trips_variants env sv (Suc n) vs = Inr (rest, m)"
    and rows: "rows = [dict_get sv ''id'' (JStr []), dict_get vr ''id'' (JStr []),
                       JStr (trip_id_of env (dict_get sv ''id'' (JStr [])) (Suc n)),
                       dict_get sv ''route_long_name'' (JStr []),
                       dict_get sv ''route_short_name'' (JStr []),
                       JInt 0, JStr [], JInt 0, JInt 0] # rest"
    by (auto simp: Let_def split: json.splits sum.splits prod.splits)
  from Cons.IH [OF r] rows show ?case
    by (simp add: trip_ids_Cons route_id_of_def)
qed

lemma trips_rows_Inr:
  "trips_rows env n svs = Inr rows \<Longrightarrow>
     map (\<lambda>row. row ! 2) rows = trip_ids env (Suc n) (trip_owners svs)"
proof (induction svs arbitrary: n rows)
  case Nil
  then show ?case by (simp add: trip_owners_def)
next
  case (Cons x xs)
  from Cons.prems obtain sv vs rows1 m others where
    x: "x = JObj sv"
    and it: "py_iter (dict_get sv ''variants'' (JList [])) = Inr vs"
    and v: "trips_variants env sv n vs = Inr (rows1, m)"
    and r: "trips_rows env m xs = Inr others"
    and rows: "rows = rows1 @ others"
    by (auto split: json.splits sum.splits prod.splits)
  from x it have vo: "variants_of x = vs" by (simp add: variants_of_def)
  from trips_variants_Inr [OF v] Cons.IH [OF r] rows x vo show ?case
    by (simp add: trip_owners_Cons trip_ids_append)
qed

lemma stop_time_rows_Inr:
  "for_each (stop_time_row t) calls = Inr rows \<Longrightarrow>
     map (\<lambda>row. row ! 0) rows = replicate (length calls) (JStr t)"
proof (induction calls arbitrary: rows)
  case Nil
  then show ?case by simp
next
  case (Cons c cs)
  then show ?case
    by (auto simp: stop_time_row_def split: json.splits sum.splits)
qed

lemma stop_times_variants_Inr:
  assumes "stop_times_variants env (dict_get sv ''id'' (JStr [])) (dict_get sv ''calls'' (JList []))
             n vs = Inr (rows, m)"
  shows "m = n + length vs
     \<and> map (\<lambda>row. row ! 0) rows
       = stop_time_trip_ids env (Suc n) (replicate (length vs) (JObj sv))"
  using assms
proof (induction vs arbitrary: n rows m)
  case Nil
  then show ?case by simp
next
  case (Cons v vs)
  from Cons.prems obtain cs rows1 others where
    ic: "py_iter (dict_get sv ''calls'' (JList [])) = Inr cs"
    and f: "for_each (stop_time_row (trip_id_of env (dict_get sv ''id'' (JStr [])) (Suc n))) cs
            = Inr rows1"
    and r: "stop_times_variants env (dict_get sv ''id'' (JStr []))
              (dict_get sv ''calls'' (JList [])) (Suc n) vs = Inr (others, m)"
    and rows: "rows = rows1 @ others"
    by (auto simp: Let_def split: sum.splits prod.splits)
  from ic have co: "calls_of (JObj sv) = cs" by (simp add: calls_of_def)
  from stop_time_rows_Inr [OF f] Cons.IH [OF r] rows co show ?case
    by (simp add: stop_time_trip_ids_Cons route_id_of_def)
qed

lemma stop_times_rows_Inr:
  "stop_times_rows env n svs = Inr rows \<Longrightarrow>
     map (\<lambda>row. row ! 0) rows = stop_time_trip_ids env (Suc n) (trip_owners svs)"
proof (induction svs arbitrary: n rows)
  case Nil
  then show ?case by (simp add: trip_owners_def)
next
  case (Cons x xs)
  from Cons.prems obtain sv vs rows1 m others where
    x: "x = JObj sv"
    and it: "py_iter (dict_get sv ''variants'' (JList [])) = Inr vs"
    and v: "stop_times_variants env (dict_get sv ''id'' (JStr []))
              (dict_get sv ''calls'' (JList [])) n vs = Inr (rows1, m)"
    and r: "stop_times_rows env m xs = Inr others"
    and rows: "rows = rows1 @ others"
    by (auto split: json.splits sum.splits prod.splits)
  from x it have vo: "variants_of x = vs" by (simp add: variants_of_def)
  from stop_times_variants_Inr [OF v] Cons.IH [OF r] rows vo x show ?case
    by (simp add: trip_owners_Cons stop_time_trip_ids_append)
qed

lemma write_gtfs_static_Inr:
  assumes "write_gtfs_static env doc = Inr files"
  shows "\<exists>services trips_txt stop_times_txt.
           map_of doc ''services'' = Some services
         \<and> generate_trips_file env services = Inr trips_txt
         \<and> generate_stop_times_file env services = Inr stop_times_txt
         \<and> map_of files ''trips.txt'' = Some trips_txt
         \<and> map_of files ''stop_times.txt'' = Some stop_times_txt"
  using assms
  by (auto simp: write_gtfs_static_def ebind_eq_Inr split: option.splits if_splits)

section \<open>Escaping round trip\<close>

lemma replace_append: "replace (xs @ ys) old new = replace xs old new @ replace ys old new"
  by (induction xs) simp_all

lemma escape_Nil: "escape [] s = []"
  by (simp add: escape_def)

lemma escape_Cons:
  assumes "distinct [s_comp s, s_elem s, s_rel s, s_seg s]"
  shows "escape (c # cs) s = escape_char s c @ escape cs s"
  using assms by (auto simp: escape_def escape_char_def Let_def replace_append)

lemma unescape_escape:
  assumes "distinct [s_comp s, s_elem s, s_rel s, s_seg s]"
  shows "unescape s (escape v s @ r) = v @ unescape s r"
proof (induction v)
  case Nil
  show ?case by (simp add: escape_Nil)
next
  case (Cons c cs)
  show ?case
  proof (cases "escape cs s @ r")
    case Nil
    with Cons show ?thesis
      by (auto simp: escape_Cons [OF assms] escape_char_def)
  next
    case (Cons d ds)
    with Cons.IH show ?thesis
      by (auto simp: escape_Cons [OF assms] escape_char_def)
  qed
qed

lemma parse_element_escape:
  assumes "distinct [s_comp s, s_elem s, s_rel s, s_seg s]"
    and "r = [] \<or> hd r \<in> {s_seg s, s_elem s, s_comp s}"
  shows "parse_element s (escape v s @ r) = (escape v s, r)"
proof (induction v)
  case Nil
  show ?case
  proof (cases r)
    case Nil
    then show ?thesis by (simp add: escape_Nil)
  next
    case (Cons t ts)
    with assms show ?thesis
      by (cases ts) (auto simp: escape_Nil)
  qed
next
  case (Cons c cs)
  show ?case
  proof (cases "escape cs s @ r")
    case Nil
    with Cons.IH assms(1) show ?thesis
      by (auto simp: escape_Cons [OF assms(1)] escape_char_def)
  next
    case (Cons d ds)
    with Cons.IH assms(1) show ?thesis
      by (auto simp: escape_Cons [OF assms(1)] escape_char_def)
  qed
qed

text \<open>
  Claim C1.  For a separator set whose component separator, element separator, release
  character and segment terminator are pairwise distinct (in particular for five
  distinct separators) and every text \<open>v\<close>: the escaped text, parsed in front of any
  following separator, is read back as one whole element, and un-escaping it gives
  \<open>v\<close> again.
\<close>

theorem escape_roundtrip:
  assumes "distinct [s_comp s, s_elem s, s_dec s, s_rel s, s_seg s]"
    and "r = [] \<or> hd r \<in> {s_seg s, s_elem s, s_comp s}"
  shows "parse_element s (escape v s @ r) = (escape v s, r)
       \<and> unescape s (fst (parse_element s (escape v s @ r))) = v"
proof -
  from assms(1) have d: "distinct [s_comp s, s_elem s, s_rel s, s_seg s]"
    by auto
  have p: "parse_element s (escape v s @ r) = (escape v s, r)"
    by (rule parse_element_escape [OF d assms(2)])
  have "unescape s (escape v s @ []) = v @ unescape s []"
    by (rule unescape_escape [OF d])
  with p show ?thesis by simp
qed


theorem escape_roundtrip_witness:
  "distinct [s_comp default_Sep, s_elem default_Sep, s_dec default_Sep, s_rel default_Sep,
             s_seg default_Sep]
   \<and> escape ''a+b?c:d'' default_Sep = ''a?+b??c?:d''
   \<and> parse_element default_Sep (''a?+b??c?:d'' @ ''+x'') = (''a?+b??c?:d'', ''+x'')
   \<and> unescape default_Sep ''a?+b??c?:d'' = ''a+b?c:d''"
  using escape_roundtrip [of default_Sep "''+x''" "''a+b?c:d''"]
  by (simp add: default_Sep_def escape_def)

section \<open>Deterministic reference\<close>

lemma length_sha1: "length (sha1 m) = 20"
  by (simp add: sha1_def bytes32_def split: prod.splits)

lemma length_hexdigest: "length (hexdigest bs) = 2 * length bs"
  by (induction bs) (simp_all add: hexdigest_def hex_byte_def)

lemma upper_hex_char: "d < 16 \<Longrightarrow> upper_char (hex_char d) \<in> set ''0123456789ABCDEF''"
proof -
  assume "d < 16"
  then have "d = 0 \<or> d = 1 \<or> d = 2 \<or> d = 3 \<or> d = 4 \<or> d = 5 \<or> d = 6 \<or> d = 7 \<or> d = 8
      \<or> d = 9 \<or> d = 10 \<or> d = 11 \<or> d = 12 \<or> d = 13 \<or> d = 14 \<or> d = 15"
    by arith
  then show ?thesis
    by (elim disjE) (simp_all add: hex_char_def upper_char_def)
qed

lemma upper_hex_byte: "list_all (\<lambda>c. c \<in> set ''0123456789ABCDEF'') (upper (hex_byte b))"
proof -
  have "unat b < 256" using unsigned_less [of b] by simp
  then have "unat b div 16 < 16" "unat b mod 16 < 16" by auto
  then show ?thesis
    using upper_hex_char by (simp add: upper_def hex_byte_def del: set_simps)
qed

lemma list_all_upper_hexdigest:
  "list_all (\<lambda>c. c \<in> set ''0123456789ABCDEF'') (upper (hexdigest bs))"
proof (induction bs)
  case Nil
  show ?case by (simp add: upper_def hexdigest_def)
next
  case (Cons b bs)
  have "upper (hexdigest (b # bs)) = upper (hex_byte b) @ upper (hexdigest bs)"
    by (simp add: upper_def hexdigest_def)
  with Cons upper_hex_byte [of b] show ?case
    by (simp del: set_simps)
qed

lemma upper_take: "upper (take n t) = take n (upper t)"
  by (simp add: upper_def take_map)

lemma list_all_take: "list_all P xs \<Longrightarrow> list_all P (take n xs)"
  by (auto simp: list_all_iff dest: in_set_takeD)

lemma deterministic_ref_value:
  "generate_deterministic_ref env (JObj publisher) version =
     Inr (upper (take 12 (hexdigest (sha1 (utf8_encode
            (py_str env (dict_get publisher ''name'' (JStr [])) @ ''-''
             @ py_str env (dict_get publisher ''url'' (JStr [])) @ ''-'' @ version))))))"
  by (simp add: generate_deterministic_ref_def ebind_def py_get_def Let_def)

text \<open>
  Claim C3.  For a publisher mapping and a version string, \<open>generate_deterministic_ref\<close>
  returns the upper-cased first twelve hexadecimal digits of the SHA-1 digest (twenty
  bytes) of the UTF-8 bytes of name, \<open>-\<close>, url, \<open>-\<close>, version, with name and url empty
  when absent.  The result has exactly twelve characters, each an upper-case
  hexadecimal digit, and two publishers with the same name and url get the same
  reference for the same version.
\<close>

theorem deterministic_ref:
  "generate_deterministic_ref env (JObj publisher) version =
     Inr (upper (take 12 (hexdigest (sha1 (utf8_encode
            (py_str env (dict_get publisher ''name'' (JStr [])) @ ''-''
             @ py_str env (dict_get publisher ''url'' (JStr [])) @ ''-'' @ version))))))
   \<and> length (sha1 (utf8_encode
            (py_str env (dict_get publisher ''name'' (JStr [])) @ ''-''
             @ py_str env (dict_get publisher ''url'' (JStr [])) @ ''-'' @ version))) * 8 = 160
   \<and> (\<exists>ref. generate_deterministic_ref env (JObj publisher) version = Inr ref
         \<and> length ref = 12
         \<and> list_all (\<lambda>c. c \<in> set ''0123456789ABCDEF'') ref)
   \<and> (dict_get publisher ''name'' (JStr []) = dict_get publisher' ''name'' (JStr [])
        \<and> dict_get publisher ''url'' (JStr []) = dict_get publisher' ''url'' (JStr [])
      \<longrightarrow> generate_deterministic_ref env (JObj publisher) version
          = generate_deterministic_ref env (JObj publisher') version)"
proof -
  let ?d = "sha1 (utf8_encode
            (py_str env (dict_get publisher ''name'' (JStr [])) @ ''-''
             @ py_str env (dict_get publisher ''url'' (JStr [])) @ ''-'' @ version))"
  have len: "length (upper (take 12 (hexdigest ?d))) = 12"
    by (simp add: upper_def length_hexdigest length_sha1)
  have hex: "list_all (\<lambda>c. c \<in> set ''0123456789ABCDEF'') (upper (take 12 (hexdigest ?d)))"
    unfolding upper_take by (rule list_all_take) (rule list_all_upper_hexdigest)
  show ?thesis
    using len hex by (simp add: deterministic_ref_value length_sha1 del: set_simps)
qed

theorem deterministic_ref_witness:
  "generate_deterministic_ref test_env
     (JObj [(''name'', JStr ''Acme''), (''url'', JStr ''https://acme.example'')]) ''CURRENT''
   = generate_deterministic_ref test_env
       (JObj [(''email'', JStr ''info@acme.example''), (''url'', JStr ''https://acme.example''),
              (''name'', JStr ''Acme'')]) ''CURRENT''"
proof -
  let ?p = "[(''name'', JStr ''Acme''), (''url'', JStr ''https://acme.example'')]"
  let ?q = "[(''email'', JStr ''info@acme.example''), (''url'', JStr ''https://acme.example''),
             (''name'', JStr ''Acme'')]"
  have same: "dict_get ?p ''name'' (JStr []) = dict_get ?q ''name'' (JStr [])
              \<and> dict_get ?p ''url'' (JStr []) = dict_get ?q ''url'' (JStr [])"
    by (simp add: dict_get_def)
  from deterministic_ref [of test_env ?p "''CURRENT''" ?q]
  have "dict_get ?p ''name'' (JStr []) = dict_get ?q ''name'' (JStr [])
          \<and> dict_get ?p ''url'' (JStr []) = dict_get ?q ''url'' (JStr [])
        \<longrightarrow> generate_deterministic_ref test_env (JObj ?p) ''CURRENT''
            = generate_deterministic_ref test_env (JObj ?q) ''CURRENT''"
    by (elim conjE)
  with same show ?thesis by (rule rev_mp)
qed

section \<open>Validation\<close>

lemma validate_errors:
  "errors (validate_data format d l) =
     (if format = ''json-transport'' \<and> map_of d ''agencies'' = None
      then [\<lparr>code = ''MISSING_REQUIRED_FIELD'', message = ''Required field 'agencies' is missing'',
             field = ''agencies'', severity = ''error''\<rparr>] else [])"
  by (simp add: validate_data_def Let_def)

text \<open>
  Claim C10.  When the format is not \<open>json-transport\<close>, the result is valid and its
  error, warning and notice lists are empty, whatever the input document.  The error
  list is non-empty, and the result invalid, exactly when the format is
  \<open>json-transport\<close> and the document has no key \<open>agencies\<close>.
\<close>

theorem validate_permissive:
  "(format \<noteq> ''json-transport'' \<longrightarrow>
      is_valid (validate_data format d l)
      \<and> errors (validate_data format d l) = []
      \<and> warnings (validate_data format d l) = []
      \<and> notices (validate_data format d l) = [])
   \<and> (errors (validate_data format d l) \<noteq> []
        \<longleftrightarrow> format = ''json-transport'' \<and> map_of d ''agencies'' = None)
   \<and> (is_valid (validate_data format d l) \<longleftrightarrow> errors (validate_data format d l) = [])"
  by (simp add: validate_data_def Let_def)

theorem validate_permissive_witness:
  "''gtfs'' \<noteq> ''json-transport''
   \<and> is_valid (validate_data ''gtfs'' [(''stations'', JInt 7)] STRICT)
   \<and> errors (validate_data ''gtfs'' [(''stations'', JInt 7)] STRICT) = []
   \<and> \<not> is_valid (validate_data ''json-transport'' [(''stations'', JInt 7)] STRICT)"
  using validate_permissive [of "''gtfs''" "[(''stations'', JInt 7)]" STRICT]
    validate_permissive [of "''json-transport''" "[(''stations'', JInt 7)]" STRICT]
  by simp

section \<open>Filename sanitizing\<close>

text \<open>
  Claim C9 at a name of 108 characters with the eight-character extension \<open>.geojson\<close>:
  the stem is cut to 95 characters and the extension kept whole, so the result has 103
  characters, three more than the bound of the claim.  The bound is also passed at a
  name of 100 characters without a dot, which is not cut and then gets \<open>.txt\<close>
  appended.
\<close>

theorem sanitize_filename_long_extension:
  "sanitize_filename (replicate 100 (CHR ''a'') @ ''.geojson'')
     = replicate 95 (CHR ''a'') @ ''.geojson''
   \<and> length (sanitize_filename (replicate 100 (CHR ''a'') @ ''.geojson'')) = 103
   \<and> sanitize_filename (replicate 100 (CHR ''a'')) = replicate 100 (CHR ''a'') @ ''.txt''
   \<and> length (sanitize_filename (replicate 100 (CHR ''a''))) = 104"
  by code_simp

section \<open>TSDUPD body: coordinates\<close>

text \<open>
  Claim C8 at a station on the prime meridian, with both coordinates present and the
  longitude the number zero: the guard \<open>if lat and lon\<close> is false there, and the body is
  the \<open>LOC\<close> segment alone, without the \<open>GIS\<close> segment the claim asks for.
\<close>

theorem tsdupd_zero_longitude:
  "map_tsdupd_segments env
     (JList [JObj [(''id'', JStr ''S1''), (''name'', JStr ''Greenwich''), (''lat'', JInt 51),
                   (''lon'', JInt 0)]])
     default_Sep
   = Inr [''LOC+88+S1+++Greenwich'' @ [CHR 0x27]]"
  by (simp add: map_tsdupd_segments_def ebind_def py_iter_def tsdupd_station_def dict_get_def
      py_truthy_def seg_def py_str_def escape_def default_Sep_def)

section \<open>SKDUPD body: the TDT segment\<close>

lemma skdupd_date_no_tdt:
  "skdupd_date env s q d = Inr ys \<Longrightarrow> filter (\<lambda>x. take 3 x = ''TDT'') ys = []"
  by (auto simp: skdupd_date_def seg_tag split: if_splits json.splits)

lemma skdupd_time_no_tdt:
  "skdupd_time env s q d = Inr ys \<Longrightarrow> filter (\<lambda>x. take 3 x = ''TDT'') ys = []"
  by (auto simp: skdupd_time_def seg_tag ebind_eq_Inr split: if_splits)

lemma skdupd_variant_no_tdt:
  "skdupd_variant env s v = Inr ys \<Longrightarrow> filter (\<lambda>x. take 3 x = ''TDT'') ys = []"
  by (auto simp: skdupd_variant_def Let_def seg_tag ebind_eq_Inr
      dest: skdupd_date_no_tdt split: json.splits)

lemma skdupd_call_no_tdt:
  "skdupd_call env s c = Inr ys \<Longrightarrow> filter (\<lambda>x. take 3 x = ''TDT'') ys = []"
  by (auto simp: skdupd_call_def Let_def seg_tag ebind_eq_Inr
      dest: skdupd_time_no_tdt split: json.splits)

lemma skdupd_carrier_no_tdt:
  "skdupd_carrier env ag s used c = Inr (nad, used') \<Longrightarrow> filter (\<lambda>x. take 3 x = ''TDT'') nad = []"
  by (auto simp: skdupd_carrier_def Let_def seg_tag ebind_eq_Inr split: if_splits option.splits)

lemma skdupd_service_tdt:
  assumes "skdupd_service env s sv = Inr segs"
  shows "filter (\<lambda>x. take 3 x = ''TDT'') segs = [skdupd_tdt env s sv]"
proof -
  let ?headsign = "if py_truthy (dict_get sv ''headsign'' JNull) then dict_get sv ''headsign'' JNull
                   else dict_get sv ''route_long_name'' JNull"
  let ?ftx = "if py_truthy ?headsign
              then [seg env ''FTX'' [JStr ''AAI'', JStr [], JStr [], ?headsign] s] else []"
  from assms obtain vs vsegs cs csegs where
    v: "for_each (skdupd_variant env s) vs = Inr vsegs"
    and c: "for_each (skdupd_call env s) cs = Inr csegs"
    and segs: "segs = skdupd_tdt env s sv # ?ftx @ vsegs @ csegs"
    by (auto simp: skdupd_service_def Let_def ebind_eq_Inr)
  have f: "filter (\<lambda>x. take 3 x = ''TDT'') ?ftx = []"
    by (simp add: seg_tag)
  have "filter (\<lambda>x. take 3 x = ''TDT'') vsegs = []"
    using skdupd_variant_no_tdt v by (rule filter_for_each_Nil)
  moreover have "filter (\<lambda>x. take 3 x = ''TDT'') csegs = []"
    using skdupd_call_no_tdt c by (rule filter_for_each_Nil)
  ultimately show ?thesis
    unfolding segs using f by (simp add: skdupd_tdt_def seg_tag)
qed

lemma skdupd_services_tdt:
  "skdupd_services env ag s used xs = Inr body \<Longrightarrow>
     \<exists>svs. xs = map JObj svs \<and> filter (\<lambda>x. take 3 x = ''TDT'') body = map (skdupd_tdt env s) svs"
proof (induction xs arbitrary: used body)
  case Nil
  then show ?case by simp
next
  case (Cons x xs)
  from Cons.prems obtain sv nad used' segs others where
    x: "x = JObj sv"
    and c: "skdupd_carrier env ag s used (dict_get sv ''agency_id'' (JStr [])) = Inr (nad, used')"
    and sg: "skdupd_service env s sv = Inr segs"
    and r: "skdupd_services env ag s used' xs = Inr others"
    and b: "body = nad @ segs @ others"
    by (auto split: json.splits sum.splits)
  from Cons.IH [OF r] obtain svs where
    "xs = map JObj svs" "filter (\<lambda>x. take 3 x = ''TDT'') others = map (skdupd_tdt env s) svs"
    by blast
  with x b skdupd_carrier_no_tdt [OF c] skdupd_service_tdt [OF sg]
  have "x # xs = map JObj (sv # svs)
        \<and> filter (\<lambda>x. take 3 x = ''TDT'') body = map (skdupd_tdt env s) (sv # svs)"
    by simp
  then show ?case by (rule exI [where x = "sv # svs"])
qed

lemma train_number_of_first_present:
  "train_number_of sv =
     (case map_of sv ''train_number'' of
        Some v \<Rightarrow> v
      | None \<Rightarrow> (case map_of sv ''route_short_name'' of
                   Some v \<Rightarrow> v
                 | None \<Rightarrow> (case map_of sv ''id'' of Some v \<Rightarrow> v | None \<Rightarrow> JStr [])))"
  by (simp add: train_number_of_def dict_get_def split: option.splits)

text \<open>
  Claim C7 as stated fails: with an empty \<open>train_number\<close> and the
  \<open>route_short_name\<close> 101 the segment carries the empty \<open>train_number\<close>, not the
  first non-empty value.
\<close>

theorem tdt_first_non_empty_counterexample:
  "map_skdupd_segments test_env
     (JList [JObj [(''id'', JStr ''A1''), (''name'', JStr ''Test Rail'')]])
     (JList [JObj [(''id'', JStr ''S1''), (''train_number'', JStr []),
                   (''route_short_name'', JStr ''101'')]])
     default_Sep
   = Inr [''TDT+20+'' @ [CHR 0x27]]
   \<and> seg test_env ''TDT''
        [JStr ''20'',
         first_non_empty [(''id'', JStr ''S1''), (''train_number'', JStr []),
                          (''route_short_name'', JStr ''101'')]]
        default_Sep
     = ''TDT+20+101'' @ [CHR 0x27]
   \<and> ''TDT+20+'' @ [CHR 0x27] \<noteq> ''TDT+20+101'' @ [CHR 0x27]"
  by (simp add: map_skdupd_segments_def py_iter_def skdupd_carrier_def skdupd_service_def
      skdupd_tdt_def train_number_of_def first_non_empty_def dict_get_def py_truthy_def
      seg_def py_str_def escape_def default_Sep_def Let_def)

text \<open>
  Claim C7, amended.  When the SKDUPD body mapping accepts its input, every service is
  a dict, and the \<open>TDT\<close> segments of the body are, in order, exactly one for each
  service: qualifier \<open>20\<close> followed by the value of the first key present among
  \<open>train_number\<close>, \<open>route_short_name\<close> and \<open>id\<close> (be that value empty or not), or by
  the empty string when none of the three is present.
\<close>

theorem tdt_per_service:
  assumes "map_skdupd_segments env agencies services s = Inr body"
  shows "\<exists>svs. py_iter services = Inr (map JObj svs)
           \<and> filter (\<lambda>x. take 3 x = ''TDT'') body
             = map (\<lambda>sv. seg env ''TDT''
                            [JStr ''20'',
                             case map_of sv ''train_number'' of
                               Some v \<Rightarrow> v
                             | None \<Rightarrow> (case map_of sv ''route_short_name'' of
                                          Some v \<Rightarrow> v
                                        | None \<Rightarrow> (case map_of sv ''id'' of
                                                     Some v \<Rightarrow> v
                                                   | None \<Rightarrow> JStr []))] s) svs"
proof -
  from assms obtain xs where it: "py_iter services = Inr xs"
    and sv: "skdupd_services env agencies s [] xs = Inr body"
    by (auto simp: map_skdupd_segments_def ebind_eq_Inr)
  from skdupd_services_tdt [OF sv] obtain svs where
    "xs = map JObj svs" "filter (\<lambda>x. take 3 x = ''TDT'') body = map (skdupd_tdt env s) svs"
    by blast
  with it show ?thesis
    by (auto simp: skdupd_tdt_def train_number_of_first_present)
qed

theorem tdt_per_service_witness:
  "map_skdupd_segments test_env
     (JList [JObj [(''id'', JStr ''A1''), (''name'', JStr ''Test Rail'')]])
     (JList [JObj [(''id'', JStr ''S1''), (''route_short_name'', JStr ''101'')],
             JObj [(''id'', JStr ''S2''), (''train_number'', JInt 7)]])
     default_Sep
   = Inr [''TDT+20+101'' @ [CHR 0x27], ''TDT+20+7'' @ [CHR 0x27]]
   \<and> (\<exists>svs. [JObj [(''id'', JStr ''S1''), (''route_short_name'', JStr ''101'')],
                JObj [(''id'', JStr ''S2''), (''train_number'', JInt 7)]] = map JObj svs
           \<and> length svs = 2)"
proof -
  let ?ags = "JList [JObj [(''id'', JStr ''A1''), (''name'', JStr ''Test Rail'')]]"
  let ?svcs = "JList [JObj [(''id'', JStr ''S1''), (''route_short_name'', JStr ''101'')],
                      JObj [(''id'', JStr ''S2''), (''train_number'', JInt 7)]]"
  have run: "map_skdupd_segments test_env ?ags ?svcs default_Sep
             = Inr [''TDT+20+101'' @ [CHR 0x27], ''TDT+20+7'' @ [CHR 0x27]]"
    by (simp add: map_skdupd_segments_def py_iter_def skdupd_carrier_def skdupd_service_def
        skdupd_tdt_def train_number_of_def dict_get_def py_truthy_def
        seg_def py_str_def str_int_def digits.simps digit_char_def escape_def default_Sep_def
        Let_def)
  from tdt_per_service [OF run] obtain svs where
    "py_iter ?svcs = Inr (map JObj svs)"
    and "filter (\<lambda>x. take 3 x = ''TDT'') [''TDT+20+101'' @ [CHR 0x27], ''TDT+20+7'' @ [CHR 0x27]]
         = map (\<lambda>sv. seg test_env ''TDT''
                        [JStr ''20'',
                         case map_of sv ''train_number'' of
                           Some v \<Rightarrow> v
                         | None \<Rightarrow> (case map_of sv ''route_short_name'' of
                                      Some v \<Rightarrow> v
                                    | None \<Rightarrow> (case map_of sv ''id'' of
                                                 Some v \<Rightarrow> v
                                               | None \<Rightarrow> JStr []))] default_Sep) svs"
    by blast
  then have "[JObj [(''id'', JStr ''S1''), (''route_short_name'', JStr ''101'')],
              JObj [(''id'', JStr ''S2''), (''train_number'', JInt 7)]] = map JObj svs
             \<and> length svs = 2"
    by (auto simp: py_iter_def)
  then have "\<exists>svs. [JObj [(''id'', JStr ''S1''), (''route_short_name'', JStr ''101'')],
                    JObj [(''id'', JStr ''S2''), (''train_number'', JInt 7)]] = map JObj svs
                   \<and> length svs = 2"
    by (rule exI [of _ svs])
  with run show ?thesis by (rule conjI)
qed

section \<open>UNA validation\<close>

lemma last_make_unz: "last (make_unz env n r s) = s_seg s"
  by (simp add: make_unz_def seg_def)

lemma sep_of_una_fields:
  "sep_of_una una = \<lparr>s_comp = una ! 3, s_elem = una ! 4, s_dec = una ! 5, s_rel = una ! 6,
                     s_seg = una ! 8\<rparr>"
  by (simp add: sep_of_una_def)

text \<open>
  Claim C6.  Both entry points end with the \<open>ValueError\<close> that names the UNA string
  exactly when the string has not nine characters or does not start with \<open>UNA\<close>.  When
  an entry point returns a message, the string was accepted, and the message is the
  UNA string followed by the segments built with the characters at positions 3, 4, 5, 6
  and 8 as component separator, element separator, decimal mark, release character and
  segment terminator; in particular it ends with the character at position 8.
\<close>

theorem una_validation:
  "(write_skdupd env doc version una = Inl (ValueError (''Invalid UNA string: '' @ una))
      \<longleftrightarrow> length una \<noteq> 9 \<or> \<not> prefix ''UNA'' una)
   \<and> (write_tsdupd env doc version una = Inl (ValueError (''Invalid UNA string: '' @ una))
      \<longleftrightarrow> length una \<noteq> 9 \<or> \<not> prefix ''UNA'' una)
   \<and> (write_skdupd env doc version una = Inr msg \<or> write_tsdupd env doc version una = Inr msg
      \<longrightarrow> length una = 9 \<and> prefix ''UNA'' una
        \<and> (\<exists>S sender iref ts mt body.
              S = \<lparr>s_comp = una ! 3, s_elem = una ! 4, s_dec = una ! 5, s_rel = una ! 6,
                   s_seg = una ! 8\<rparr>
            \<and> ((\<exists>agencies services.
                   map_of doc ''agencies'' = Some agencies \<and> map_of doc ''services'' = Some services
                 \<and> map_skdupd_segments env agencies services S = Inr body \<and> mt = ''SKDUPD'')
               \<or> (\<exists>stations.
                   map_of doc ''stations'' = Some stations
                 \<and> map_tsdupd_segments env stations S = Inr body \<and> mt = ''TSDUPD''))
            \<and> msg = concat ([una, make_unb env sender ''RECEIVER'' iref ts S,
                              make_unh env (iref @ ''01'') mt version S]
                             @ body
                             @ [make_unt env (int (length body) + 2) (iref @ ''01'') S,
                                make_unz env 1 iref S])
            \<and> last msg = una ! 8))"
proof (intro conjI impI)
  show "write_skdupd env doc version una = Inl (ValueError (''Invalid UNA string: '' @ una))
          \<longleftrightarrow> length una \<noteq> 9 \<or> \<not> prefix ''UNA'' una"
    by (simp only: write_skdupd_Inl skdupd_segments_una)
  show "write_tsdupd env doc version una = Inl (ValueError (''Invalid UNA string: '' @ una))
          \<longleftrightarrow> length una \<noteq> 9 \<or> \<not> prefix ''UNA'' una"
    by (simp only: write_tsdupd_Inl tsdupd_segments_una)
next
  assume "write_skdupd env doc version una = Inr msg \<or> write_tsdupd env doc version una = Inr msg"
  then show "length una = 9"
    by (auto simp: write_skdupd_Inr write_tsdupd_Inr dest: skdupd_segments_Inr tsdupd_segments_Inr)
next
  assume "write_skdupd env doc version una = Inr msg \<or> write_tsdupd env doc version una = Inr msg"
  then show "prefix ''UNA'' una"
    by (auto simp: write_skdupd_Inr write_tsdupd_Inr dest: skdupd_segments_Inr tsdupd_segments_Inr)
next
  let ?S = "\<lparr>s_comp = una ! 3, s_elem = una ! 4, s_dec = una ! 5, s_rel = una ! 6,
              s_seg = una ! 8\<rparr>"
  have last_msg: "last (concat ([una, unb, unh] @ body @ [unt, make_unz env 1 iref ?S])) = una ! 8"
    for unb unh body unt iref
  proof -
    have "make_unz env 1 iref ?S \<noteq> []" by (simp add: make_unz_def seg_def)
    then show ?thesis
      using last_make_unz [of env 1 iref ?S] by simp
  qed
  assume "write_skdupd env doc version una = Inr msg \<or> write_tsdupd env doc version una = Inr msg"
  then show "\<exists>S sender iref ts mt body.
              S = ?S
            \<and> ((\<exists>agencies services.
                   map_of doc ''agencies'' = Some agencies \<and> map_of doc ''services'' = Some services
                 \<and> map_skdupd_segments env agencies services S = Inr body \<and> mt = ''SKDUPD'')
               \<or> (\<exists>stations.
                   map_of doc ''stations'' = Some stations
                 \<and> map_tsdupd_segments env stations S = Inr body \<and> mt = ''TSDUPD''))
            \<and> msg = concat ([una, make_unb env sender ''RECEIVER'' iref ts S,
                              make_unh env (iref @ ''01'') mt version S]
                             @ body
                             @ [make_unt env (int (length body) + 2) (iref @ ''01'') S,
                                make_unz env 1 iref S])
            \<and> last msg = una ! 8"
  proof
    assume "write_skdupd env doc version una = Inr msg"
    then obtain segs where sg: "skdupd_segments env doc version una = Inr segs"
      and m: "msg = concat segs"
      by (auto simp: write_skdupd_Inr)
    from skdupd_segments_Inr [OF sg] obtain agencies services sender iref ts body where
      "map_of doc ''agencies'' = Some agencies" "map_of doc ''services'' = Some services"
      "map_skdupd_segments env agencies services ?S = Inr body"
      "segs = [una, make_unb env sender ''RECEIVER'' iref ts ?S,
               make_unh env (iref @ ''01'') ''SKDUPD'' version ?S]
              @ body
              @ [make_unt env (int (length body) + 2) (iref @ ''01'') ?S, make_unz env 1 iref ?S]"
      unfolding sep_of_una_fields by blast
    with m last_msg show ?thesis
      by (intro exI [of _ ?S] exI [of _ sender] exI [of _ iref] exI [of _ ts]
          exI [of _ "''SKDUPD''"] exI [of _ body]) auto
  next
    assume "write_tsdupd env doc version una = Inr msg"
    then obtain segs where sg: "tsdupd_segments env doc version una = Inr segs"
      and m: "msg = concat segs"
      by (auto simp: write_tsdupd_Inr)
    from tsdupd_segments_Inr [OF sg] obtain stations sender iref ts body where
      "map_of doc ''stations'' = Some stations"
      "map_tsdupd_segments env stations ?S = Inr body"
      "segs = [una, make_unb env sender ''RECEIVER'' iref ts ?S,
               make_unh env (iref @ ''01'') ''TSDUPD'' version ?S]
              @ body
              @ [make_unt env (int (length body) + 2) (iref @ ''01'') ?S, make_unz env 1 iref ?S]"
      unfolding sep_of_una_fields by blast
    with m last_msg show ?thesis
      by (intro exI [of _ ?S] exI [of _ sender] exI [of _ iref] exI [of _ ts]
          exI [of _ "''TSDUPD''"] exI [of _ body]) auto
  qed
qed

theorem una_validation_witness:
  "write_skdupd test_env [] ''CURRENT'' ''UNA:+.?''
     = Inl (ValueError ''Invalid UNA string: UNA:+.?'')
   \<and> write_tsdupd test_env [] ''CURRENT'' ''XYZ:+.? !''
     = Inl (ValueError ''Invalid UNA string: XYZ:+.? !'')
   \<and> write_tsdupd test_env [] ''CURRENT'' ''UNA:+.? !''
     \<noteq> Inl (ValueError ''Invalid UNA string: UNA:+.? !'')
   \<and> (\<exists>msg. write_tsdupd test_env
               [(''stations'', JList [JObj [(''id'', JStr ''S1''), (''name'', JStr ''Greenwich'')]])]
               ''CURRENT'' default_una = Inr msg
            \<and> last msg = CHR 0x27)"
proof -
  let ?doc = "[(''stations'', JList [JObj [(''id'', JStr ''S1''), (''name'', JStr ''Greenwich'')]])]"
  let ?una = "default_una"
  have 1: "write_skdupd test_env [] ''CURRENT'' ''UNA:+.?''
             = Inl (ValueError ''Invalid UNA string: UNA:+.?'')"
    using una_validation [of test_env "[]" "''CURRENT''" "''UNA:+.?''"] by simp
  have 2: "write_tsdupd test_env [] ''CURRENT'' ''XYZ:+.? !''
             = Inl (ValueError ''Invalid UNA string: XYZ:+.? !'')"
    using una_validation [of test_env "[]" "''CURRENT''" "''XYZ:+.? !''"] by simp
  have 3: "write_tsdupd test_env [] ''CURRENT'' ''UNA:+.? !''
             \<noteq> Inl (ValueError ''Invalid UNA string: UNA:+.? !'')"
    using una_validation [of test_env "[]" "''CURRENT''" "''UNA:+.? !''"] by simp
  from tsdupd_example_accepted obtain msg where
    w: "write_tsdupd test_env ?doc ''CURRENT'' ?una = Inr msg" by blast
  with una_validation [of test_env ?doc "''CURRENT''" ?una msg]
  have "last msg = ?una ! 8" by blast
  then have "last msg = CHR 0x27" by (simp add: default_una_def)
  with w have 4: "\<exists>msg. write_tsdupd test_env ?doc ''CURRENT'' ?una = Inr msg \<and> last msg = CHR 0x27"
    by blast
  from 1 2 3 4 show ?thesis by blast
qed

section \<open>Segment count\<close>

text \<open>
  Claim C2.  A message returned by \<open>write_skdupd\<close> or \<open>write_tsdupd\<close> is the UNA string,
  \<open>UNB\<close>, \<open>UNH\<close>, the body segments that the body mapping returned, \<open>UNT\<close> and \<open>UNZ\<close>,
  and the first element of that \<open>UNT\<close> segment is the decimal numeral of the number of
  body segments plus 2 (escaped like every simple element).
\<close>

theorem unt_segment_count:
  "(write_skdupd env doc version una = Inr msg \<longrightarrow>
      (\<exists>agencies services body sender iref ts.
          map_of doc ''agencies'' = Some agencies
        \<and> map_of doc ''services'' = Some services
        \<and> map_skdupd_segments env agencies services (sep_of_una una) = Inr body
        \<and> msg = una @ make_unb env sender ''RECEIVER'' iref ts (sep_of_una una)
                @ make_unh env (iref @ ''01'') ''SKDUPD'' version (sep_of_una una)
                @ concat body
                @ make_unt env (int (length body) + 2) (iref @ ''01'') (sep_of_una una)
                @ make_unz env 1 iref (sep_of_una una)
        \<and> make_unt env (int (length body) + 2) (iref @ ''01'') (sep_of_una una)
          = ''UNT'' @ [una ! 4] @ escape (str_int (int (length body) + 2)) (sep_of_una una)
            @ [una ! 4] @ escape (iref @ ''01'') (sep_of_una una) @ [una ! 8]))
   \<and> (write_tsdupd env doc version una = Inr msg \<longrightarrow>
      (\<exists>stations body sender iref ts.
          map_of doc ''stations'' = Some stations
        \<and> map_tsdupd_segments env stations (sep_of_una una) = Inr body
        \<and> msg = una @ make_unb env sender ''RECEIVER'' iref ts (sep_of_una una)
                @ make_unh env (iref @ ''01'') ''TSDUPD'' version (sep_of_una una)
                @ concat body
                @ make_unt env (int (length body) + 2) (iref @ ''01'') (sep_of_una una)
                @ make_unz env 1 iref (sep_of_una una)
        \<and> make_unt env (int (length body) + 2) (iref @ ''01'') (sep_of_una una)
          = ''UNT'' @ [una ! 4] @ escape (str_int (int (length body) + 2)) (sep_of_una una)
            @ [una ! 4] @ escape (iref @ ''01'') (sep_of_una una) @ [una ! 8]))"
proof (intro conjI impI)
  have unt: "make_unt env n r (sep_of_una una)
             = ''UNT'' @ [una ! 4] @ escape (str_int n) (sep_of_una una)
               @ [una ! 4] @ escape r (sep_of_una una) @ [una ! 8]" for n r
    by (simp add: make_unt_text) (simp add: sep_of_una_def)
  {
    assume "write_skdupd env doc version una = Inr msg"
    then obtain segs where sg: "skdupd_segments env doc version una = Inr segs"
      and m: "msg = concat segs"
      by (auto simp: write_skdupd_Inr)
    from skdupd_segments_Inr [OF sg] obtain agencies services sender iref ts body where
      "map_of doc ''agencies'' = Some agencies" "map_of doc ''services'' = Some services"
      "map_skdupd_segments env agencies services (sep_of_una una) = Inr body"
      "segs = [una, make_unb env sender ''RECEIVER'' iref ts (sep_of_una una),
               make_unh env (iref @ ''01'') ''SKDUPD'' version (sep_of_una una)]
              @ body
              @ [make_unt env (int (length body) + 2) (iref @ ''01'') (sep_of_una una),
                 make_unz env 1 iref (sep_of_una una)]"
      by blast
    with m unt show "\<exists>agencies services body sender iref ts.
          map_of doc ''agencies'' = Some agencies
        \<and> map_of doc ''services'' = Some services
        \<and> map_skdupd_segments env agencies services (sep_of_una una) = Inr body
        \<and> msg = una @ make_unb env sender ''RECEIVER'' iref ts (sep_of_una una)
                @ make_unh env (iref @ ''01'') ''SKDUPD'' version (sep_of_una una)
                @ concat body
                @ make_unt env (int (length body) + 2) (iref @ ''01'') (sep_of_una una)
                @ make_unz env 1 iref (sep_of_una una)
        \<and> make_unt env (int (length body) + 2) (iref @ ''01'') (sep_of_una una)
          = ''UNT'' @ [una ! 4] @ escape (str_int (int (length body) + 2)) (sep_of_una una)
            @ [una ! 4] @ escape (iref @ ''01'') (sep_of_una una) @ [una ! 8]"
      by (intro exI [of _ agencies] exI [of _ services] exI [of _ body] exI [of _ sender]
          exI [of _ iref] exI [of _ ts]) simp
  }
  {
    assume "write_tsdupd env doc version una = Inr msg"
    then obtain segs where sg: "tsdupd_segments env doc version una = Inr segs"
      and m: "msg = concat segs"
      by (auto simp: write_tsdupd_Inr)
    from tsdupd_segments_Inr [OF sg] obtain stations sender iref ts body where
      "map_of doc ''stations'' = Some stations"
      "map_tsdupd_segments env stations (sep_of_una una) = Inr body"
      "segs = [una, make_unb env sender ''RECEIVER'' iref ts (sep_of_una una),
               make_unh env (iref @ ''01'') ''TSDUPD'' version (sep_of_una una)]
              @ body
              @ [make_unt env (int (length body) + 2) (iref @ ''01'') (sep_of_una una),
                 make_unz env 1 iref (sep_of_una una)]"
      by blast
    with m unt show "\<exists>stations body sender iref ts.
          map_of doc ''stations'' = Some stations
        \<and> map_tsdupd_segments env stations (sep_of_una una) = Inr body
        \<and> msg = una @ make_unb env sender ''RECEIVER'' iref ts (sep_of_una una)
                @ make_unh env (iref @ ''01'') ''TSDUPD'' version (sep_of_una una)
                @ concat body
                @ make_unt env (int (length body) + 2) (iref @ ''01'') (sep_of_una una)
                @ make_unz env 1 iref (sep_of_una una)
        \<and> make_unt env (int (length body) + 2) (iref @ ''01'') (sep_of_una una)
          = ''UNT'' @ [una ! 4] @ escape (str_int (int (length body) + 2)) (sep_of_una una)
            @ [una ! 4] @ escape (iref @ ''01'') (sep_of_una una) @ [una ! 8]"
      by (intro exI [of _ stations] exI [of _ body] exI [of _ sender]
          exI [of _ iref] exI [of _ ts]) simp
  }
qed

theorem unt_segment_count_witness:
  "\<exists>msg iref sender ts.
     write_skdupd test_env
       [(''agencies'', JList [JObj [(''id'', JStr ''A1''), (''name'', JStr ''Test Rail'')]]),
        (''services'', JList [JObj [(''id'', JStr ''S1''), (''agency_id'', JStr ''A1''),
                                    (''route_short_name'', JStr ''101'')]])]
       ''CURRENT'' default_una = Inr msg
   \<and> msg = default_una @ make_unb test_env sender ''RECEIVER'' iref ts default_Sep
           @ make_unh test_env (iref @ ''01'') ''SKDUPD'' ''CURRENT'' default_Sep
           @ (''NAD+CA+A1++Test Rail'' @ [CHR 0x27]) @ (''TDT+20+101'' @ [CHR 0x27])
           @ (''UNT+4+'' @ escape (iref @ ''01'') default_Sep @ [CHR 0x27])
           @ make_unz test_env 1 iref default_Sep"
proof -
  let ?ags = "JList [JObj [(''id'', JStr ''A1''), (''name'', JStr ''Test Rail'')]]"
  let ?svs = "JList [JObj [(''id'', JStr ''S1''), (''agency_id'', JStr ''A1''),
                           (''route_short_name'', JStr ''101'')]]"
  let ?doc = "[(''agencies'', ?ags), (''services'', ?svs)]"
  let ?una = "default_una"
  from skdupd_example_accepted obtain msg where
    w: "write_skdupd test_env ?doc ''CURRENT'' ?una = Inr msg" by blast
  from unt_segment_count [of test_env ?doc "''CURRENT''" ?una msg] w
  obtain agencies services body sender iref ts where
    a: "map_of ?doc ''agencies'' = Some agencies"
    and s: "map_of ?doc ''services'' = Some services"
    and b: "map_skdupd_segments test_env agencies services (sep_of_una ?una) = Inr body"
    and m: "msg = ?una @ make_unb test_env sender ''RECEIVER'' iref ts (sep_of_una ?una)
                @ make_unh test_env (iref @ ''01'') ''SKDUPD'' ''CURRENT'' (sep_of_una ?una)
                @ concat body
                @ make_unt test_env (int (length body) + 2) (iref @ ''01'') (sep_of_una ?una)
                @ make_unz test_env 1 iref (sep_of_una ?una)"
    and u: "make_unt test_env (int (length body) + 2) (iref @ ''01'') (sep_of_una ?una)
          = ''UNT'' @ [?una ! 4] @ escape (str_int (int (length body) + 2)) (sep_of_una ?una)
            @ [?una ! 4] @ escape (iref @ ''01'') (sep_of_una ?una) @ [?una ! 8]"
    by blast
  from a s have "agencies = ?ags" "services = ?svs" by simp_all
  with b have body: "body = [''NAD+CA+A1++Test Rail'' @ [CHR 0x27], ''TDT+20+101'' @ [CHR 0x27]]"
    by (simp add: sep_default_una skdupd_example_body)
  have e4: "default_una ! 4 = CHR ''+''" "default_una ! 8 = CHR 0x27"
    by (simp_all add: default_una_def)
  have four: "escape (str_int 4) default_Sep = ''4''"
    by (simp add: str_int_def digits.simps digit_char_def escape_def default_Sep_def)
  from m u body four
  have "msg = ?una @ make_unb test_env sender ''RECEIVER'' iref ts default_Sep
           @ make_unh test_env (iref @ ''01'') ''SKDUPD'' ''CURRENT'' default_Sep
           @ (''NAD+CA+A1++Test Rail'' @ [CHR 0x27]) @ (''TDT+20+101'' @ [CHR 0x27])
           @ (''UNT+4+'' @ escape (iref @ ''01'') default_Sep @ [CHR 0x27])
           @ make_unz test_env 1 iref default_Sep"
    by (simp add: sep_default_una e4)
  with w show ?thesis by blast
qed

section \<open>GTFS required fields\<close>

text \<open>
  Claim C5.  When one of the keys \<open>agencies\<close>, \<open>stations\<close>, \<open>services\<close> is missing or bound
  to the empty list, \<open>write_gtfs_static\<close> ends with a \<open>ValueError\<close> and returns no file
  mapping.  When all three are bound to non-empty lists it does not end with a
  \<open>ValueError\<close>.  Exactly: it ends with a \<open>ValueError\<close> if and only if one of the three
  keys is missing or bound to a falsy value.
\<close>

theorem gtfs_required_fields:
  "(k \<in> {''agencies'', ''stations'', ''services''}
      \<and> (map_of doc k = None \<or> map_of doc k = Some (JList []))
    \<longrightarrow> is_value_error (write_gtfs_static env doc)
      \<and> (\<forall>files. write_gtfs_static env doc \<noteq> Inr files))
   \<and> ((\<forall>k \<in> {''agencies'', ''stations'', ''services''}. \<exists>x xs. map_of doc k = Some (JList (x # xs)))
    \<longrightarrow> \<not> is_value_error (write_gtfs_static env doc))
   \<and> (is_value_error (write_gtfs_static env doc) \<longleftrightarrow>
        (\<exists>k \<in> {''agencies'', ''stations'', ''services''}.
           map_of doc k = None \<or> (\<exists>v. map_of doc k = Some v \<and> \<not> py_truthy v)))"
proof (intro conjI impI)
  assume a: "k \<in> {''agencies'', ''stations'', ''services''}
      \<and> (map_of doc k = None \<or> map_of doc k = Some (JList []))"
  then have "\<exists>k \<in> {''agencies'', ''stations'', ''services''}.
        map_of doc k = None \<or> (\<exists>v. map_of doc k = Some v \<and> \<not> py_truthy v)"
    by (auto simp: py_truthy_def)
  then show "is_value_error (write_gtfs_static env doc)"
    using write_gtfs_static_value_error [of env doc] by blast
  then show "\<forall>files. write_gtfs_static env doc \<noteq> Inr files"
    by (auto simp: is_value_error_def)
next
  assume "\<forall>k \<in> {''agencies'', ''stations'', ''services''}. \<exists>x xs. map_of doc k = Some (JList (x # xs))"
  then have "\<not> (\<exists>k \<in> {''agencies'', ''stations'', ''services''}.
        map_of doc k = None \<or> (\<exists>v. map_of doc k = Some v \<and> \<not> py_truthy v))"
    by (auto simp: py_truthy_def)
  then show "\<not> is_value_error (write_gtfs_static env doc)"
    using write_gtfs_static_value_error [of env doc] by blast
next
  show "is_value_error (write_gtfs_static env doc) \<longleftrightarrow>
        (\<exists>k \<in> {''agencies'', ''stations'', ''services''}.
           map_of doc k = None \<or> (\<exists>v. map_of doc k = Some v \<and> \<not> py_truthy v))"
    by (rule write_gtfs_static_value_error)
qed

theorem gtfs_required_fields_witness:
  "is_value_error (write_gtfs_static test_env
       [(''agencies'', JList []), (''stations'', JList [JObj []]), (''services'', JList [JObj []])])
   \<and> is_value_error (write_gtfs_static test_env
       [(''agencies'', JList [JObj []]), (''services'', JList [JObj []])])
   \<and> \<not> is_value_error (write_gtfs_static test_env
       [(''agencies'', JList [JObj []]), (''stations'', JList [JObj []]),
        (''services'', JList [JObj []])])"
proof -
  let ?d1 = "[(''agencies'', JList []), (''stations'', JList [JObj []]), (''services'', JList [JObj []])]"
  let ?d2 = "[(''agencies'', JList [JObj []]), (''services'', JList [JObj []])]"
  let ?d3 = "[(''agencies'', JList [JObj []]), (''stations'', JList [JObj []]),
              (''services'', JList [JObj []])]"
  have 1: "is_value_error (write_gtfs_static test_env ?d1)"
    using gtfs_required_fields [of "''agencies''" ?d1 test_env] by simp
  have 2: "is_value_error (write_gtfs_static test_env ?d2)"
    using gtfs_required_fields [of "''stations''" ?d2 test_env] by simp
  have 3: "\<not> is_value_error (write_gtfs_static test_env ?d3)"
    using gtfs_required_fields [of "''agencies''" ?d3 test_env] by simp
  from 1 2 3 show ?thesis by (intro conjI)
qed

section \<open>GTFS trips and stop times\<close>

text \<open>
  Claim C4.  When \<open>write_gtfs_static\<close> accepts a document whose services have \<open>N\<close>
  variants in all, the writer of \<open>trips.txt\<close> is given exactly \<open>N\<close> data rows; their
  trip ids (third column) are the route id of the owning service, an underscore and the
  running number 1, 2, ... counted through all services and variants in document order;
  and the writer of \<open>stop_times.txt\<close> is given, for each of those trips in the same
  order, one row for each call of the trip's service, with the trip's id in the first
  column.  Rows are counted as calls of \<open>writerow\<close>; \<open>csv_text\<close> renders each as one
  record.
\<close>

theorem gtfs_trip_consistency:
  assumes "write_gtfs_static env doc = Inr files"
  shows "\<exists>services svs trows srows.
           map_of doc ''services'' = Some services
         \<and> py_iter services = Inr svs
         \<and> map_of files ''trips.txt'' = Some (csv_text env trips_header trows)
         \<and> map_of files ''stop_times.txt'' = Some (csv_text env stop_times_header srows)
         \<and> length trows = sum_list (map (\<lambda>service. length (variants_of service)) svs)
         \<and> map (\<lambda>row. row ! 2) trows = trip_ids env 1 (trip_owners svs)
         \<and> map (\<lambda>row. row ! 0) srows = stop_time_trip_ids env 1 (trip_owners svs)"
proof -
  from write_gtfs_static_Inr [OF assms] obtain services trips_txt stop_times_txt where
    s: "map_of doc ''services'' = Some services"
    and t: "generate_trips_file env services = Inr trips_txt"
    and st: "generate_stop_times_file env services = Inr stop_times_txt"
    and ft: "map_of files ''trips.txt'' = Some trips_txt"
    and fs: "map_of files ''stop_times.txt'' = Some stop_times_txt"
    by blast
  from t obtain svs trows where
    it: "py_iter services = Inr svs"
    and tr: "trips_rows env 0 svs = Inr trows"
    and tt: "trips_txt = csv_text env trips_header trows"
    by (auto simp: generate_trips_file_def ebind_eq_Inr)
  from st it obtain srows where
    sr: "stop_times_rows env 0 svs = Inr srows"
    and stt: "stop_times_txt = csv_text env stop_times_header srows"
    by (auto simp: generate_stop_times_file_def ebind_eq_Inr)
  have ids: "map (\<lambda>row. row ! 2) trows = trip_ids env 1 (trip_owners svs)"
    using trips_rows_Inr [OF tr] by simp
  then have "length (map (\<lambda>row. row ! 2) trows) = length (trip_ids env 1 (trip_owners svs))"
    by simp
  then have len: "length trows = sum_list (map (\<lambda>service. length (variants_of service)) svs)"
    by (simp add: length_trip_owners)
  have sids: "map (\<lambda>row. row ! 0) srows = stop_time_trip_ids env 1 (trip_owners svs)"
    using stop_times_rows_Inr [OF sr] by simp
  from s it ft fs tt stt len ids sids
  have "map_of doc ''services'' = Some services
         \<and> py_iter services = Inr svs
         \<and> map_of files ''trips.txt'' = Some (csv_text env trips_header trows)
         \<and> map_of files ''stop_times.txt'' = Some (csv_text env stop_times_header srows)
         \<and> length trows = sum_list (map (\<lambda>service. length (variants_of service)) svs)
         \<and> map (\<lambda>row. row ! 2) trows = trip_ids env 1 (trip_owners svs)
         \<and> map (\<lambda>row. row ! 0) srows = stop_time_trip_ids env 1 (trip_owners svs)"
    by simp
  then show ?thesis
    by (intro exI [of _ services] exI [of _ svs] exI [of _ trows] exI [of _ srows])
qed

lemma example_accepted: "\<exists>files. write_gtfs_static test_env example_document = Inr files"
  by (simp add: write_gtfs_static_def example_document_def example_services_def py_truthy_def
      generate_agency_file_def generate_stops_file_def generate_routes_file_def
      generate_calendar_file_def generate_trips_file_def generate_stop_times_file_def
      generate_feed_info_file_def py_iter_def agency_row_def stops_row_def routes_row_def
      stop_time_row_def dict_get_def py_key_def Let_def)

lemma example_trip_ids:
  "trip_ids test_env 1 (trip_owners
     [JObj [(''id'', JStr ''R1''),
            (''variants'', JList [JObj [(''id'', JStr ''V1'')], JObj [(''id'', JStr ''V2'')]]),
            (''calls'', JList [JObj [(''station_id'', JStr ''ST1'')],
                               JObj [(''station_id'', JStr ''ST2'')]])],
      JObj [(''id'', JStr ''R2''),
            (''variants'', JList [JObj [(''id'', JStr ''V3'')]]),
            (''calls'', JList [JObj [(''station_id'', JStr ''ST1'')]])]])
   = [JStr ''R1_1'', JStr ''R1_2'', JStr ''R2_3'']"
  by (simp add: trip_ids_def trip_owners_def variants_of_def py_iter_def dict_get_def
      route_id_of_def trip_id_of_def py_str_def str_int_def digits.simps digit_char_def
      test_env_def enumerate_eq_zip)

lemma example_stop_time_trip_ids:
  "stop_time_trip_ids test_env 1 (trip_owners
     [JObj [(''id'', JStr ''R1''),
            (''variants'', JList [JObj [(''id'', JStr ''V1'')], JObj [(''id'', JStr ''V2'')]]),
            (''calls'', JList [JObj [(''station_id'', JStr ''ST1'')],
                               JObj [(''station_id'', JStr ''ST2'')]])],
      JObj [(''id'', JStr ''R2''),
            (''variants'', JList [JObj [(''id'', JStr ''V3'')]]),
            (''calls'', JList [JObj [(''station_id'', JStr ''ST1'')]])]])
   = [JStr ''R1_1'', JStr ''R1_1'', JStr ''R1_2'', JStr ''R1_2'', JStr ''R2_3'']"
  by (simp add: stop_time_trip_ids_def trip_owners_def variants_of_def calls_of_def py_iter_def
      dict_get_def route_id_of_def trip_id_of_def py_str_def str_int_def digits.simps
      digit_char_def test_env_def enumerate_eq_zip)

theorem gtfs_trip_consistency_witness:
  "\<exists>files trows srows.
     write_gtfs_static test_env example_document = Inr files
   \<and> map_of files ''trips.txt'' = Some (csv_text test_env trips_header trows)
   \<and> map_of files ''stop_times.txt'' = Some (csv_text test_env stop_times_header srows)
   \<and> length trows = 3
   \<and> map (\<lambda>row. row ! 2) trows = [JStr ''R1_1'', JStr ''R1_2'', JStr ''R2_3'']
   \<and> map (\<lambda>row. row ! 0) srows
     = [JStr ''R1_1'', JStr ''R1_1'', JStr ''R1_2'', JStr ''R1_2'', JStr ''R2_3'']"
proof -
  from example_accepted obtain files where
    w: "write_gtfs_static test_env example_document = Inr files" by blast
  from gtfs_trip_consistency [OF w] obtain services svs trows srows where
    s: "map_of example_document ''services'' = Some services"
    and it: "py_iter services = Inr svs"
    and ft: "map_of files ''trips.txt'' = Some (csv_text test_env trips_header trows)"
    and fs: "map_of files ''stop_times.txt'' = Some (csv_text test_env stop_times_header srows)"
    and len: "length trows = sum_list (map (\<lambda>service. length (variants_of service)) svs)"
    and ids: "map (\<lambda>row. row ! 2) trows = trip_ids test_env 1 (trip_owners svs)"
    and sids: "map (\<lambda>row. row ! 0) srows = stop_time_trip_ids test_env 1 (trip_owners svs)"
    by blast
  from s have "services = example_services" by (simp add: example_document_def)
  with it have svs: "svs =
     [JObj [(''id'', JStr ''R1''),
            (''variants'', JList [JObj [(''id'', JStr ''V1'')], JObj [(''id'', JStr ''V2'')]]),
            (''calls'', JList [JObj [(''station_id'', JStr ''ST1'')],
                               JObj [(''station_id'', JStr ''ST2'')]])],
      JObj [(''id'', JStr ''R2''),
            (''variants'', JList [JObj [(''id'', JStr ''V3'')]]),
            (''calls'', JList [JObj [(''station_id'', JStr ''ST1'')]])]]"
    by (simp add: example_services_def py_iter_def)
  from ids have i: "map (\<lambda>row. row ! 2) trows = [JStr ''R1_1'', JStr ''R1_2'', JStr ''R2_3'']"
    unfolding svs example_trip_ids .
  from sids have si: "map (\<lambda>row. row ! 0) srows
     = [JStr ''R1_1'', JStr ''R1_1'', JStr ''R1_2'', JStr ''R1_2'', JStr ''R2_3'']"
    unfolding svs example_stop_time_trip_ids .
  from len have l: "length trows = 3"
    unfolding svs by (simp add: variants_of_def py_iter_def dict_get_def)
  from w ft fs l i si
  have "write_gtfs_static test_env example_document = Inr files
   \<and> map_of files ''trips.txt'' = Some (csv_text test_env trips_header trows)
   \<and> map_of files ''stop_times.txt'' = Some (csv_text test_env stop_times_header srows)
   \<and> length trows = 3
   \<and> map (\<lambda>row. row ! 2) trows = [JStr ''R1_1'', JStr ''R1_2'', JStr ''R2_3'']
   \<and> map (\<lambda>row. row ! 0) srows
     = [JStr ''R1_1'', JStr ''R1_1'', JStr ''R1_2'', JStr ''R1_2'', JStr ''R2_3'']"
    by simp
  then show ?thesis
    by (intro exI [of _ files] exI [of _ trows] exI [of _ srows])
qed

end
